theory Spec2Isabelle
  imports Complex_Main "HOL-Library.AList"
begin

section \<open>JavaScript values\<close>

text \<open>
  The values that style fragments, CSS variables and Signals carry.  Numbers are
  idealised as reals, with \<open>NaN\<close> kept apart; a runtime-value expression
  \<^verbatim>\<open>{ type: "runtime", name, arguments }\<close> is the constructor \<open>Runtime\<close>.
\<close>

datatype jsval =
    Undefined
  | Null
  | Bool bool
  | Num real
  | NaN
  | Str string
  | Arr "jsval list"
  | Obj "(string \<times> jsval) list"
  | Runtime string "jsval list"

text \<open>The operator \<^verbatim>\<open>a ?? b\<close>: \<open>b\<close> only where \<open>a\<close> is \<^verbatim>\<open>null\<close> or \<^verbatim>\<open>undefined\<close>.\<close>

fun nullish :: "jsval \<Rightarrow> bool" where
  "nullish Undefined = True"
| "nullish Null = True"
| "nullish _ = False"

definition coalesce :: "jsval \<Rightarrow> jsval \<Rightarrow> jsval" where
  "coalesce a b = (if nullish a then b else a)"

section \<open>CSS variable Signals (native/proxy)\<close>

datatype scheme = Light | Dark

text \<open>
  \<^verbatim>\<open>createColorSchemeSignal\<close>: a pair of Signals, \<^verbatim>\<open>light\<close> and \<^verbatim>\<open>dark\<close>;
  \<^verbatim>\<open>get\<close> and \<^verbatim>\<open>set\<close> choose by the current colour scheme.  Only the values
  held by the two Signals are kept here; \<^verbatim>\<open>Signal.set\<close> stores its argument
  (storing a value that is already there changes nothing).
\<close>

record ColorSchemeSignal =
  light :: jsval
  dark :: jsval

definition createColorSchemeSignal :: "jsval \<Rightarrow> jsval \<Rightarrow> ColorSchemeSignal" where
  "createColorSchemeSignal lightValue darkValue = \<lparr> light = lightValue, dark = darkValue \<rparr>"

definition cs_get :: "scheme \<Rightarrow> ColorSchemeSignal \<Rightarrow> jsval" where
  "cs_get colorScheme s = (if colorScheme = Light then light s else dark s)"

definition cs_set :: "scheme \<Rightarrow> jsval \<Rightarrow> ColorSchemeSignal \<Rightarrow> ColorSchemeSignal" where
  "cs_set colorScheme nextValue s =
     (if colorScheme = Light then s\<lparr> light := nextValue \<rparr> else s\<lparr> dark := nextValue \<rparr>)"

text \<open>
  \<^verbatim>\<open>defaultVariables\<close>: a proxy over a table of colour-scheme Signals; reading a
  name that is not there yet creates \<^verbatim>\<open>createColorSchemeSignal()\<close>, both values
  \<^verbatim>\<open>undefined\<close>.
\<close>

type_synonym variable_table = "string \<rightharpoonup> ColorSchemeSignal"

definition defaultVariables_get :: "variable_table \<Rightarrow> string \<Rightarrow> ColorSchemeSignal" where
  "defaultVariables_get target prop =
     (case target prop of
        None \<Rightarrow> createColorSchemeSignal Undefined Undefined
      | Some s \<Rightarrow> s)"

definition defaultVariables_set ::
  "scheme \<Rightarrow> string \<Rightarrow> jsval \<Rightarrow> variable_table \<Rightarrow> variable_table" where
  "defaultVariables_set colorScheme prop v target =
     target(prop \<mapsto> cs_set colorScheme v (defaultVariables_get target prop))"

text \<open>
  A context's \<^verbatim>\<open>variables\<close>.  The inherited context of the root component
  context is the plain object \<^verbatim>\<open>{ variables: {}, containers: {} }\<close>, in which
  no name has a Signal (\<open>NoVariables\<close>).  Every other context holds
  \<^verbatim>\<open>createVariableProxy(inheritedContext)\<close>: the table of the values of its own
  Signals (a name that was never set holds \<^verbatim>\<open>undefined\<close>, the value its Signal is
  created with) and the inherited context.
\<close>

datatype variables = NoVariables | VariableProxy "string \<rightharpoonup> jsval" variables

fun local_value :: "(string \<rightharpoonup> jsval) \<Rightarrow> string \<Rightarrow> jsval" where
  "local_value target key = (case target key of None \<Rightarrow> Undefined | Some v \<Rightarrow> v)"

text \<open>
  \<^verbatim>\<open>createCSSVariableSignal(key, value, context).get\<close>:
  \<^verbatim>\<open>signal.get() ?? defaultSignal.get() ?? parentSignal?.get()\<close>, where
  \<^verbatim>\<open>parentSignal = context.variables[key]\<close> is \<^verbatim>\<open>undefined\<close> in the plain root
  object and the parent's own variable Signal otherwise.
\<close>

fun createCSSVariableSignal_get ::
  "scheme \<Rightarrow> variable_table \<Rightarrow> variables \<Rightarrow> string \<Rightarrow> jsval" where
  "createCSSVariableSignal_get colorScheme defaults NoVariables key = Undefined"
| "createCSSVariableSignal_get colorScheme defaults (VariableProxy target inherited) key =
     coalesce (coalesce (local_value target key)
                 (cs_get colorScheme (defaultVariables_get defaults key)))
              (createCSSVariableSignal_get colorScheme defaults inherited key)"

text \<open>\<^verbatim>\<open>context.variables[key].set(nextValue)\<close>: stores the value in the context's own Signal.\<close>

fun createCSSVariableSignal_set :: "string \<Rightarrow> jsval \<Rightarrow> variables \<Rightarrow> variables" where
  "createCSSVariableSignal_set key nextValue NoVariables = NoVariables"
| "createCSSVariableSignal_set key nextValue (VariableProxy target inherited) =
     VariableProxy (target(key \<mapsto> nextValue)) inherited"

text \<open>
  \<^verbatim>\<open>createComponentContext(inheritedContext)\<close>, the \<^verbatim>\<open>variables\<close> field: a
  fresh proxy with no Signal created yet.  The root component context inherits from the
  plain object.
\<close>

definition createVariableProxy :: "variables \<Rightarrow> variables" where
  "createVariableProxy inheritedContext = VariableProxy Map.empty inheritedContext"

definition rootComponentContext :: variables where
  "rootComponentContext = createVariableProxy NoVariables"

section \<open>Signals and Computations (runtime/signals)\<close>

text \<open>
  A Signal or Computation is an object; a reference to it is a number.  A subscriber is
  either a Computation or a plain callback (\<^verbatim>\<open>typeof subscriber === "function"\<close>),
  the callbacks being told apart by a number too.
\<close>

type_synonym ref = nat

datatype subscriber = Computation ref | Callback nat

text \<open>
  A JavaScript \<^verbatim>\<open>Set\<close> keeps its entries in insertion order; \<^verbatim>\<open>delete\<close> and
  \<^verbatim>\<open>clear\<close> leave an empty slot behind and \<^verbatim>\<open>add\<close> appends, so that a
  \<^verbatim>\<open>for ... of\<close> loop running over the set, which walks the entries by index,
  also reaches what is added while it runs, and reaches again an entry that was deleted
  and added back.
\<close>

type_synonym 'a jsset = "'a option list"

definition set_add :: "'a \<Rightarrow> 'a jsset \<Rightarrow> 'a jsset" where
  "set_add x xs = (if Some x \<in> set xs then xs else xs @ [Some x])"

definition set_delete :: "'a \<Rightarrow> 'a jsset \<Rightarrow> 'a jsset" where
  "set_delete x xs = map (\<lambda>e. if e = Some x then None else e) xs"

definition set_clear :: "'a jsset \<Rightarrow> 'a jsset" where
  "set_clear xs = map (\<lambda>e. None) xs"

definition members :: "'a jsset \<Rightarrow> 'a set" where
  "members xs = {x. Some x \<in> set xs}"

text \<open>
  The function a Computation tracks reads Signals through \<^verbatim>\<open>get()\<close> and
  returns a value: \<open>Get s k\<close> reads \<open>s\<close> and goes on as \<open>k\<close> of the value read.
  A value is \<open>'v option\<close>, \<open>None\<close> being \<^verbatim>\<open>undefined\<close>; equality on it
  stands for \<^verbatim>\<open>Object.is\<close>.
\<close>

datatype 'v tracked = Return "'v option" | Get ref "'v option \<Rightarrow> 'v tracked"

text \<open>
  One object: the fields of \<^verbatim>\<open>createSignal\<close>'s closure (\<^verbatim>\<open>value\<close>,
  \<^verbatim>\<open>subscriptions\<close>) and, for a Computation (\<open>fn\<close> is not \<open>None\<close>), the
  fields \<^verbatim>\<open>createComputation\<close> adds.  \<^verbatim>\<open>dependencies\<close> is a set of
  subscription sets, each named by the Signal that owns it.
\<close>

record 'v node =
  sig_value :: "'v option"
  subscriptions :: "subscriber jsset"
  fn :: "'v tracked option"
  waiting :: int
  fresh :: bool
  dependencies :: "ref jsset"

text \<open>
  What happened, in order: the tracked function of a Computation was invoked, a
  Computation read a Signal, a Computation received a pulse, a plain callback was called.
  The trace is an observer of the model; no operation reads it.
\<close>

datatype 'v event =
    Executed ref
  | Tracked ref ref "'v option"
  | Pulse ref int bool
  | Notified nat "'v option"

text \<open>
  The heap of objects, the module's tracking stack \<^verbatim>\<open>context\<close> (its top is the
  last element), the callbacks handed to \<^verbatim>\<open>setImmediate\<close> and not run yet (each is the
  loop over the subscriptions of one Signal), and the trace of events.
\<close>

record 'v graph =
  nodes :: "ref \<Rightarrow> 'v node"
  next_ref :: ref
  context_stack :: "ref list"
  immediates :: "ref list"
  trace :: "'v event list"

definition upd_node :: "ref \<Rightarrow> ('v node \<Rightarrow> 'v node) \<Rightarrow> 'v graph \<Rightarrow> 'v graph" where
  "upd_node r f g = g\<lparr> nodes := (nodes g)(r := f (nodes g r)) \<rparr>"

definition emit :: "'v event \<Rightarrow> 'v graph \<Rightarrow> 'v graph" where
  "emit e g = g\<lparr> trace := trace g @ [e] \<rparr>"

definition empty_node :: "'v node" where
  "empty_node = \<lparr> sig_value = None, subscriptions = [], fn = None, waiting = 0,
                  fresh = False, dependencies = [] \<rparr>"


text \<open>\<^verbatim>\<open>createSignal(value)\<close>: a new object with no subscriber.\<close>

definition createSignal :: "'v option \<Rightarrow> 'v graph \<Rightarrow> ref \<times> 'v graph" where
  "createSignal v g =
     (next_ref g,
      g\<lparr> nodes := (nodes g)(next_ref g := empty_node\<lparr> sig_value := v \<rparr>),
         next_ref := Suc (next_ref g) \<rparr>)"

text \<open>
  \<^verbatim>\<open>get\<close>: with a Computation running (the top of \<^verbatim>\<open>context\<close>), adds it to
  the subscriptions and the subscriptions to its dependencies; returns the value.
\<close>

definition signal_get :: "ref \<Rightarrow> 'v graph \<Rightarrow> 'v option \<times> 'v graph" where
  "signal_get s g =
     (case context_stack g of
        [] \<Rightarrow> (sig_value (nodes g s), g)
      | _ # _ \<Rightarrow>
          (let running = last (context_stack g);
               g1 = upd_node s (\<lambda>n. n\<lparr> subscriptions := set_add (Computation running) (subscriptions n) \<rparr>) g;
               g2 = upd_node running (\<lambda>n. n\<lparr> dependencies := set_add s (dependencies n) \<rparr>) g1
           in (sig_value (nodes g2 s), emit (Tracked running s (sig_value (nodes g2 s))) g2)))"

definition snapshot :: "ref \<Rightarrow> 'v graph \<Rightarrow> 'v option" where
  "snapshot s g = sig_value (nodes g s)"

definition subscribe :: "ref \<Rightarrow> nat \<Rightarrow> 'v graph \<Rightarrow> 'v graph" where
  "subscribe s cb g = upd_node s (\<lambda>n. n\<lparr> subscriptions := set_add (Callback cb) (subscriptions n) \<rparr>) g"

definition unsubscribe :: "ref \<Rightarrow> subscriber \<Rightarrow> 'v graph \<Rightarrow> 'v graph" where
  "unsubscribe s cb g = upd_node s (\<lambda>n. n\<lparr> subscriptions := set_delete cb (subscriptions n) \<rparr>) g"

definition signal_cleanup :: "ref \<Rightarrow> 'v graph \<Rightarrow> 'v graph" where
  "signal_cleanup s g = upd_node s (\<lambda>n. n\<lparr> subscriptions := set_clear (subscriptions n) \<rparr>) g"

text \<open>
  \<^verbatim>\<open>cleanup(running)\<close>: deletes the Computation from every subscription set in its
  dependencies, then clears the dependencies.
\<close>

fun cleanup_deps :: "ref \<Rightarrow> ref option list \<Rightarrow> 'v graph \<Rightarrow> 'v graph" where
  "cleanup_deps running [] g = g"
| "cleanup_deps running (None # deps) g = cleanup_deps running deps g"
| "cleanup_deps running (Some dep # deps) g =
     cleanup_deps running deps
       (upd_node dep (\<lambda>n. n\<lparr> subscriptions := set_delete (Computation running) (subscriptions n) \<rparr>) g)"

definition cleanup :: "ref \<Rightarrow> 'v graph \<Rightarrow> 'v graph" where
  "cleanup running g =
     upd_node running (\<lambda>n. n\<lparr> dependencies := set_clear (dependencies n) \<rparr>)
       (cleanup_deps running (dependencies (nodes g running)) g)"

text \<open>Running a tracked function: each \<^verbatim>\<open>get()\<close> in turn.\<close>

primrec run_tracked :: "'v tracked \<Rightarrow> 'v graph \<Rightarrow> 'v option \<times> 'v graph" where
  "run_tracked (Return v) = (\<lambda>g. (v, g))"
| "run_tracked (Get s k) = (\<lambda>g. case signal_get s g of (v, g') \<Rightarrow> run_tracked (k v) g')"

text \<open>
  \<^verbatim>\<open>set\<close>, the loop of \<^verbatim>\<open>stale\<close> over the subscriptions of a Signal
  (from entry \<open>i\<close> on), the \<^verbatim>\<open>stale\<close> of a Computation and
  \<^verbatim>\<open>execute\<close> call each other without a bound that the code states.  Each body
  is written once, over the calls it makes (\<open>call\<close>); \<open>run\<close> ties them together
  with fuel, one unit a call, and \<open>None\<close> is fuel run out.
\<close>

datatype 'v call =
    Set ref "'v option"
  | StaleLoop ref int bool nat
  | Stale ref int bool
  | Execute ref

type_synonym 'v callee = "'v call \<Rightarrow> 'v graph \<Rightarrow> 'v graph option"

definition set_body :: "'v callee \<Rightarrow> ref \<Rightarrow> 'v option \<Rightarrow> 'v graph \<Rightarrow> 'v graph option" where
  "set_body call s nextValue g =
     (if sig_value (nodes g s) = nextValue then Some g
      else
        (case call (StaleLoop s 1 True 0) (upd_node s (\<lambda>nd. nd\<lparr> sig_value := nextValue \<rparr>) g) of
           None \<Rightarrow> None
         | Some g1 \<Rightarrow>
             (case call (StaleLoop s (- 1) True 0) g1 of
                None \<Rightarrow> None
              | Some g2 \<Rightarrow> Some (g2\<lparr> immediates := immediates g2 @ [s] \<rparr>))))"

definition stale_loop_body ::
  "'v callee \<Rightarrow> ref \<Rightarrow> int \<Rightarrow> bool \<Rightarrow> nat \<Rightarrow> 'v graph \<Rightarrow> 'v graph option" where
  "stale_loop_body call s change fr i g =
     (if length (subscriptions (nodes g s)) \<le> i then Some g
      else
        (case subscriptions (nodes g s) ! i of
           Some (Computation c) \<Rightarrow>
             (case call (Stale c change fr) g of
                None \<Rightarrow> None
              | Some g' \<Rightarrow> call (StaleLoop s change fr (Suc i)) g')
         | _ \<Rightarrow> call (StaleLoop s change fr (Suc i)) g))"

definition stale_body :: "'v callee \<Rightarrow> ref \<Rightarrow> int \<Rightarrow> bool \<Rightarrow> 'v graph \<Rightarrow> 'v graph option" where
  "stale_body call c change fr g0 =
     (let g = emit (Pulse c change fr) g0 in
      if waiting (nodes g c) = 0 \<and> change < 0 then Some g
      else
        (case (if waiting (nodes g c) = 0 \<and> change > 0 then call (StaleLoop c 1 False 0) g
               else Some g) of
           None \<Rightarrow> None
         | Some g1 \<Rightarrow>
             (let g2 = upd_node c (\<lambda>nd. nd\<lparr> waiting := waiting nd + change,
                                              fresh := (fresh nd \<or> fr) \<rparr>) g1
              in if waiting (nodes g2 c) = 0 then
                   (case (if fresh (nodes g2 c) then call (Execute c) g2 else Some g2) of
                      None \<Rightarrow> None
                    | Some g3 \<Rightarrow> call (StaleLoop c (- 1) False 0) g3)
                 else Some g2)))"

definition execute_body :: "'v callee \<Rightarrow> ref \<Rightarrow> 'v graph \<Rightarrow> 'v graph option" where
  "execute_body call c g =
     (let g1 = cleanup c g;
          g2 = g1\<lparr> context_stack := context_stack g1 @ [c] \<rparr>;
          g3 = upd_node c (\<lambda>nd. nd\<lparr> waiting := 0, fresh := False \<rparr>) g2
      in case fn (nodes g3 c) of
           None \<Rightarrow> None
         | Some f \<Rightarrow>
             (case run_tracked f (emit (Executed c) g3) of
                (v, g4) \<Rightarrow>
                  (case call (Set c v) g4 of
                     None \<Rightarrow> None
                   | Some g5 \<Rightarrow> Some (g5\<lparr> context_stack := butlast (context_stack g5) \<rparr>))))"

primrec run :: "nat \<Rightarrow> 'v call \<Rightarrow> 'v graph \<Rightarrow> 'v graph option" where
  "run 0 = (\<lambda>c g. None)"
| "run (Suc n) =
     (\<lambda>c g. case c of
        Set s nextValue \<Rightarrow> set_body (run n) s nextValue g
      | StaleLoop s change fr i \<Rightarrow> stale_loop_body (run n) s change fr i g
      | Stale c change fr \<Rightarrow> stale_body (run n) c change fr g
      | Execute c \<Rightarrow> execute_body (run n) c g)"



definition computation_stale :: "nat \<Rightarrow> ref \<Rightarrow> int \<Rightarrow> bool \<Rightarrow> 'v graph \<Rightarrow> 'v graph option" where
  "computation_stale n c change fr g = run n (Stale c change fr) g"

definition execute :: "nat \<Rightarrow> ref \<Rightarrow> 'v graph \<Rightarrow> 'v graph option" where
  "execute n c g = run n (Execute c) g"

text \<open>
  \<^verbatim>\<open>createComputation(fn)\<close>: a Signal holding \<^verbatim>\<open>undefined\<close>, the Computation's
  own fields, and one \<^verbatim>\<open>execute()\<close> before it is returned.
\<close>

definition createComputation :: "nat \<Rightarrow> 'v tracked \<Rightarrow> 'v graph \<Rightarrow> (ref \<times> 'v graph) option" where
  "createComputation n f g =
     (case createSignal None g of
        (c, g1) \<Rightarrow>
          (case execute n c (upd_node c (\<lambda>nd. nd\<lparr> fn := Some f, waiting := 0, fresh := False,
                                                    dependencies := [] \<rparr>) g1) of
             None \<Rightarrow> None
           | Some g2 \<Rightarrow> Some (c, g2)))"

text \<open>
  The callback that \<^verbatim>\<open>set\<close> hands to \<^verbatim>\<open>setImmediate\<close>, when it runs: every
  plain callback among the subscriptions is called with the value the Signal holds then.
\<close>

fun notify :: "'v option \<Rightarrow> subscriber option list \<Rightarrow> 'v graph \<Rightarrow> 'v graph" where
  "notify v [] g = g"
| "notify v (Some (Callback cb) # subs) g = notify v subs (emit (Notified cb v) g)"
| "notify v (_ # subs) g = notify v subs g"

fun run_immediates :: "ref list \<Rightarrow> 'v graph \<Rightarrow> 'v graph" where
  "run_immediates [] g = g"
| "run_immediates (s # ss) g =
     run_immediates ss (notify (sig_value (nodes g s)) (subscriptions (nodes g s)) g)"

definition flush :: "'v graph \<Rightarrow> 'v graph" where
  "flush g = run_immediates (immediates g) (g\<lparr> immediates := [] \<rparr>)"

section \<open>Observers of the Signal graph\<close>

text \<open>
  What the properties below speak about: the values the Signals hold, the result and the
  reads of a tracked function under given values, and one tracked read as a change of
  the graph.
\<close>

definition values_of :: "'v graph \<Rightarrow> ref \<Rightarrow> 'v option" where
  "values_of g = (\<lambda>s. sig_value (nodes g s))"

primrec tracked_result :: "'v tracked \<Rightarrow> (ref \<Rightarrow> 'v option) \<Rightarrow> 'v option" where
  "tracked_result (Return v) = (\<lambda>vals. v)"
| "tracked_result (Get s k) = (\<lambda>vals. tracked_result (k (vals s)) vals)"

primrec tracked_reads :: "'v tracked \<Rightarrow> (ref \<Rightarrow> 'v option) \<Rightarrow> ref list" where
  "tracked_reads (Return v) = (\<lambda>vals. [])"
| "tracked_reads (Get s k) = (\<lambda>vals. s # tracked_reads (k (vals s)) vals)"

definition track :: "ref \<Rightarrow> ref \<Rightarrow> 'v graph \<Rightarrow> 'v graph" where
  "track c s g =
     emit (Tracked c s (sig_value (nodes g s)))
       (upd_node c (\<lambda>n. n\<lparr> dependencies := set_add s (dependencies n) \<rparr>)
          (upd_node s (\<lambda>n. n\<lparr> subscriptions := set_add (Computation c) (subscriptions n) \<rparr>) g))"

fun track_all :: "ref \<Rightarrow> ref list \<Rightarrow> 'v graph \<Rightarrow> 'v graph" where
  "track_all c [] g = g"
| "track_all c (s # ss) g = track_all c ss (track c s g)"




definition reads_in :: "ref \<Rightarrow> 'v event list \<Rightarrow> ref set" where
  "reads_in c es = {s. \<exists>v. Tracked c s v \<in> set es}"


definition execute_prefix :: "ref \<Rightarrow> 'v graph \<Rightarrow> 'v graph" where
  "execute_prefix c g =
     emit (Executed c)
       (upd_node c (\<lambda>nd. nd\<lparr> waiting := 0, fresh := False \<rparr>)
          ((cleanup c g)\<lparr> context_stack := context_stack (cleanup c g) @ [c] \<rparr>))"


definition ok_call :: "'v graph \<Rightarrow> 'v call \<Rightarrow> bool" where
  "ok_call g k = (case k of Set s v \<Rightarrow> fn (nodes g s) \<noteq> None | _ \<Rightarrow> True)"

definition callbacks :: "subscriber jsset \<Rightarrow> nat list" where
  "callbacks xs = List.map_filter (\<lambda>e. case e of Some (Callback cb) \<Rightarrow> Some cb | _ \<Rightarrow> None) xs"

definition subs_le :: "'a jsset \<Rightarrow> 'a jsset \<Rightarrow> bool" where
  "subs_le xs ys \<longleftrightarrow>
     length xs \<le> length ys \<and> (\<forall>j < length xs. ys ! j = xs ! j \<or> ys ! j = None)"



definition graph4 ::
  "'v node \<Rightarrow> 'v node \<Rightarrow> 'v node \<Rightarrow> 'v node \<Rightarrow> nat \<Rightarrow> ref list \<Rightarrow> ref list \<Rightarrow> 'v event list \<Rightarrow> 'v graph" where
  "graph4 n0 n1 n2 n3 nx ctx imm tr =
     \<lparr> nodes = (\<lambda>r. if r = 0 then n0 else if r = 1 then n1 else if r = 2 then n2
                     else if r = 3 then n3 else empty_node),
       next_ref = nx, context_stack = ctx, immediates = imm, trace = tr \<rparr>"



definition witness_graph :: "nat graph" where
  "witness_graph =
     graph4
       \<lparr> sig_value = Some 1, subscriptions = [Some (Computation 1), Some (Callback 7)],
         fn = None, waiting = 0, fresh = False, dependencies = [] \<rparr>
       \<lparr> sig_value = Some 1, subscriptions = [],
         fn = Some (Get 0 (\<lambda>r. Return r)), waiting = 0, fresh = False,
         dependencies = [Some 0] \<rparr>
       empty_node empty_node 2 [] [] []"

section \<open>The runtime-value resolver (native/flatten-style)\<close>

text \<open>
  What a call can end in besides a value: a \<^verbatim>\<open>TypeError\<close> that the code raises, the
  recursion running out of fuel (\<^verbatim>\<open>RangeError\<close>, or no end), and an object shape that
  this model does not follow.
\<close>

datatype error = TypeError | StackOverflow | NotModelled

text \<open>Truthiness, as \<^verbatim>\<open>if (x)\<close> and \<^verbatim>\<open>x || y\<close> test it.\<close>

fun truthy :: "jsval \<Rightarrow> bool" where
  "truthy Undefined = False"
| "truthy Null = False"
| "truthy (Bool b) = b"
| "truthy (Num x) = (x \<noteq> 0)"
| "truthy NaN = False"
| "truthy (Str s) = (s \<noteq> [])"
| "truthy _ = True"

text \<open>
  What React Native and the JavaScript library provide: taken as given.
  \<open>number_to_string\<close> is \<^verbatim>\<open>Number.prototype.toString\<close>, \<open>parse_float\<close> is
  \<^verbatim>\<open>Number.parseFloat\<close> and \<open>string_to_number\<close> is the conversion of a string
  to a number, both with \<open>None\<close> for \<^verbatim>\<open>NaN\<close>.  The module-level Signals
  \<^verbatim>\<open>vh\<close>, \<^verbatim>\<open>vw\<close>, \<^verbatim>\<open>rem\<close> and \<^verbatim>\<open>colorScheme\<close> and the table
  \<^verbatim>\<open>defaultVariables\<close> are here by the values they hold.  The three condition
  tests of \<^verbatim>\<open>./conditions\<close> are given too.
\<close>

type_synonym MediaQuery = nat

type_synonym ContainerQuery = nat

record runtime =
  platform_select :: "jsval \<Rightarrow> jsval"
  pixel_ratio :: real
  font_scale :: real
  getPixelSizeForLayoutSize :: "jsval \<Rightarrow> jsval"
  roundToNearestPixel :: "jsval \<Rightarrow> jsval"
  PlatformColor :: "jsval list \<Rightarrow> jsval"
  hairlineWidth :: jsval
  number_to_string :: "real \<Rightarrow> string"
  parse_float :: "string \<Rightarrow> real option"
  string_to_number :: "string \<Rightarrow> real option"
  vh :: real
  vw :: real
  rem :: real
  colorScheme :: scheme
  defaultVariables :: variable_table
  testPseudoClasses :: "(string \<rightharpoonup> jsval) \<Rightarrow> (string \<times> jsval) list \<Rightarrow> bool"
  testMediaQuery :: "MediaQuery \<Rightarrow> bool"
  testContainerQuery :: "ContainerQuery list option \<Rightarrow> (string \<times> jsval) list \<Rightarrow> bool"

text \<open>
  \<^verbatim>\<open>ToString\<close>; inside \<^verbatim>\<open>Array.prototype.join\<close>, \<^verbatim>\<open>undefined\<close> and
  \<^verbatim>\<open>null\<close> give the empty string.
\<close>

fun intercalate :: "string \<Rightarrow> string list \<Rightarrow> string" where
  "intercalate sep [] = []"
| "intercalate sep [x] = x"
| "intercalate sep (x # y # ys) = x @ sep @ intercalate sep (y # ys)"

fun to_string :: "runtime \<Rightarrow> jsval \<Rightarrow> string" where
  "to_string rt Undefined = ''undefined''"
| "to_string rt Null = ''null''"
| "to_string rt (Bool b) = (if b then ''true'' else ''false'')"
| "to_string rt (Num x) = number_to_string rt x"
| "to_string rt NaN = ''NaN''"
| "to_string rt (Str s) = s"
| "to_string rt (Arr xs) =
     intercalate '','' (map (\<lambda>x. if nullish x then [] else to_string rt x) xs)"
| "to_string rt (Obj kvs) = ''[object Object]''"
| "to_string rt (Runtime name args) = ''[object Object]''"

definition array_join :: "runtime \<Rightarrow> string \<Rightarrow> jsval list \<Rightarrow> string" where
  "array_join rt sep xs = intercalate sep (map (\<lambda>x. if nullish x then [] else to_string rt x) xs)"

text \<open>\<^verbatim>\<open>ToNumber\<close> (\<open>None\<close> is \<^verbatim>\<open>NaN\<close>) and the product of two values.\<close>

fun to_number :: "runtime \<Rightarrow> jsval \<Rightarrow> real option" where
  "to_number rt (Num x) = Some x"
| "to_number rt NaN = None"
| "to_number rt Undefined = None"
| "to_number rt Null = Some 0"
| "to_number rt (Bool b) = Some (if b then 1 else 0)"
| "to_number rt (Str s) = string_to_number rt s"
| "to_number rt v = string_to_number rt (to_string rt v)"

definition js_times :: "runtime \<Rightarrow> jsval \<Rightarrow> jsval \<Rightarrow> jsval" where
  "js_times rt a b =
     (case to_number rt a of
        None \<Rightarrow> NaN
      | Some x \<Rightarrow> (case to_number rt b of None \<Rightarrow> NaN | Some y \<Rightarrow> Num (x * y)))"

text \<open>
  \<^verbatim>\<open>round(number)\<close>: \<^verbatim>\<open>Math.round((number + Number.EPSILON) * 100) / 100\<close>, over
  the reals; \<^verbatim>\<open>Math.round\<close> takes a half upwards.
\<close>

definition EPSILON :: real where
  "EPSILON = 1 / 2 ^ 52"

definition Math_round :: "real \<Rightarrow> real" where
  "Math_round x = of_int \<lfloor>x + 1 / 2\<rfloor>"

definition round_number :: "real \<Rightarrow> real" where
  "round_number number = Math_round ((number + EPSILON) * 100) / 100"

fun round_js :: "jsval \<Rightarrow> jsval" where
  "round_js (Num number) = Num (round_number number)"
| "round_js v = NaN"

text \<open>
  The result of \<^verbatim>\<open>extractValue\<close> is a value or a function of no argument.  The
  functions are the closures that the code builds, each with what it captures: the
  looked-up \<^verbatim>\<open>variable\<close> of \<^verbatim>\<open>var\<close>; the multiplier of \<^verbatim>\<open>em\<close>, \<^verbatim>\<open>ch\<close>
  and \<^verbatim>\<open>cw\<close>; the options, the name and the resolved arguments of
  \<^verbatim>\<open>createRuntimeFunction\<close>'s \<^verbatim>\<open>valueFn\<close>.
\<close>

datatype callback = PlatformColorCallback | PixelScale | FontScale | PixelSizeForLayoutSize | Rgb

record CreateRuntimeFunctionOptions =
  wrap :: bool
  shouldParseFloat :: bool
  joinArguments :: bool
  spreadCallbackArguments :: bool
  callback :: "callback option"

definition default_options :: CreateRuntimeFunctionOptions where
  "default_options = \<lparr> wrap = True, shouldParseFloat = True, joinArguments = True,
                        spreadCallbackArguments = False, callback = None \<rparr>"

datatype getter =
    VarGetter jsval
  | EmGetter jsval
  | ChGetter jsval
  | CwGetter jsval
  | ValueFn CreateRuntimeFunctionOptions string "resolved list"
and resolved = Value jsval | Getter getter

text \<open>
  A style object under construction.  A property holds what its accessor was defined
  with (\<open>Leaf\<close>), an object made by \<^verbatim>\<open>target[token] ??= {}\<close> (\<open>Node\<close>), or the
  array assigned to \<^verbatim>\<open>transform\<close> (\<open>Elems\<close>).  Properties keep their order of
  definition.
\<close>

datatype entry = Leaf resolved | Node "(string \<times> entry) list" | Elems "entry list"

type_synonym Style = "(string \<times> entry) list"

record ExtractedContainer =
  names :: jsval
  container_type :: jsval

text \<open>
  \<^verbatim>\<open>StyleMeta\<close> as a fragment carries it, and as \<^verbatim>\<open>flattenStyle\<close> keeps it for the
  accumulator, where the variables are accessors.
\<close>

record StyleMeta =
  media :: "MediaQuery list option"
  variables :: "(string \<times> jsval) list option"
  pseudoClasses :: "(string \<times> jsval) list option"
  animations :: "(string \<times> jsval) list option"
  container :: "ExtractedContainer option"
  containerQuery :: "ContainerQuery list option"
  transition :: "(string \<times> jsval) list option"
  requiresLayout :: bool

record FlatStyleMeta =
  flat_media :: "MediaQuery list option"
  flat_containerQuery :: "ContainerQuery list option"
  flat_variables :: "(string \<times> resolved) list option"
  flat_pseudoClasses :: "(string \<times> jsval) list option"
  flat_animations :: "(string \<times> jsval) list option"
  flat_container :: "ExtractedContainer option"
  flat_transition :: "(string \<times> jsval) list option"
  flat_requiresLayout :: bool

record ComponentContext =
  context_variables :: variables
  interaction :: "string \<rightharpoonup> jsval"
  containers :: "(string \<times> jsval) list"

record FlattenStyleOptions =
  ch :: jsval
  cw :: jsval

text \<open>
  \<^verbatim>\<open>createInteractionProxy\<close>: a property that is read before it exists is created,
  \<^verbatim>\<open>createSignal(0)\<close> for the two layout sizes and \<^verbatim>\<open>createSignal(false)\<close> for the
  rest; the table holds the values of the Signals made so far.
\<close>

definition interaction_get :: "(string \<rightharpoonup> jsval) \<Rightarrow> string \<Rightarrow> jsval" where
  "interaction_get target prop =
     (case target prop of
        Some v \<Rightarrow> v
      | None \<Rightarrow> (if prop = ''layoutHeight'' \<or> prop = ''layoutWidth'' then Num 0 else Bool False))"

text \<open>
  The handler \<^verbatim>\<open>onLayout\<close> that \<^verbatim>\<open>useStyledProps\<close> installs: it sets the two
  layout Signals from the event.
\<close>

definition onLayout :: "real \<Rightarrow> real \<Rightarrow> ComponentContext \<Rightarrow> ComponentContext" where
  "onLayout width height c =
     c\<lparr> interaction := (interaction c)(''layoutWidth'' \<mapsto> Num width, ''layoutHeight'' \<mapsto> Num height) \<rparr>"

text \<open>Results and errors in sequence: the first error ends the call.\<close>

definition and_then :: "error + 'a \<Rightarrow> ('a \<Rightarrow> error + 'b) \<Rightarrow> error + 'b" where
  "and_then r f = (case r of Inl e \<Rightarrow> Inl e | Inr x \<Rightarrow> f x)"

fun sequence :: "(error + 'a) list \<Rightarrow> error + 'a list" where
  "sequence [] = Inr []"
| "sequence (r # rs) = and_then r (\<lambda>x. and_then (sequence rs) (\<lambda>xs. Inr (x # xs)))"

text \<open>
  What one call of \<^verbatim>\<open>extractValue\<close> works with; none of it changes during the call.
\<close>

record env =
  rt :: runtime
  ctx :: ComponentContext
  options :: FlattenStyleOptions
  flatStyle :: Style
  flatStyleMeta :: FlatStyleMeta

text \<open>\<^verbatim>\<open>typeof x === "function" ? x() : x\<close>, given how a function is called.\<close>

definition read_resolved :: "(getter \<Rightarrow> error + jsval) \<Rightarrow> resolved \<Rightarrow> error + jsval" where
  "read_resolved call r = (case r of Value v \<Rightarrow> Inr v | Getter g \<Rightarrow> call g)"

text \<open>
  Reading a property of the style object runs its accessor.  A property that holds an
  object or an array is not followed.
\<close>

definition get_property :: "(getter \<Rightarrow> error + jsval) \<Rightarrow> Style \<Rightarrow> string \<Rightarrow> error + jsval" where
  "get_property call style key =
     (case map_of style key of
        None \<Rightarrow> Inr Undefined
      | Some (Leaf r) \<Rightarrow> read_resolved call r
      | Some _ \<Rightarrow> Inl NotModelled)"

text \<open>\<^verbatim>\<open>String.prototype.split\<close> at one character.\<close>

fun split_at :: "char \<Rightarrow> string \<Rightarrow> string list" where
  "split_at c [] = [[]]"
| "split_at c (x # xs) =
     (if x = c then [] # split_at c xs
      else (case split_at c xs of [] \<Rightarrow> [[x]] | w # ws \<Rightarrow> (x # w) # ws))"

text \<open>The callbacks that \<^verbatim>\<open>extractValue\<close> passes to \<^verbatim>\<open>createRuntimeFunction\<close>.\<close>

definition first_argument :: "jsval list \<Rightarrow> jsval" where
  "first_argument args = (case args of [] \<Rightarrow> Undefined | a # _ \<Rightarrow> a)"

fun apply_callback :: "runtime \<Rightarrow> callback \<Rightarrow> jsval list \<Rightarrow> error + jsval" where
  "apply_callback r PlatformColorCallback args = Inr (PlatformColor r args)"
| "apply_callback r PixelScale args = Inr (js_times r (Num (pixel_ratio r)) (first_argument args))"
| "apply_callback r FontScale args = Inr (js_times r (Num (font_scale r)) (first_argument args))"
| "apply_callback r PixelSizeForLayoutSize args =
     Inr (getPixelSizeForLayoutSize r (first_argument args))"
| "apply_callback r Rgb args =
     (case first_argument args of
        Str s \<Rightarrow>
          (let parts = split_at CHR '','' (butlast (drop 4 s))
           in if length parts = 4 then Inr (Str (''rgba('' @ intercalate '','' parts @ '')''))
              else Inr (Str s))
      | _ \<Rightarrow> Inl TypeError)"

text \<open>\<^verbatim>\<open>valueFn\<close> of \<^verbatim>\<open>createRuntimeFunction\<close>.\<close>

definition valueFn ::
  "(getter \<Rightarrow> error + jsval) \<Rightarrow> runtime \<Rightarrow> CreateRuntimeFunctionOptions \<Rightarrow> string \<Rightarrow>
   resolved list \<Rightarrow> error + jsval" where
  "valueFn call r opt name args =
     and_then (sequence (map (read_resolved call) args)) (\<lambda>vs.
       let defined = filter (\<lambda>a. a \<noteq> Undefined) vs;
           joined = (if joinArguments opt then Str (array_join r '', '' defined) else Arr defined)
       in if joinArguments opt \<and> joined = Str [] then Inr Undefined
          else
            let result = (if wrap opt then Str (name @ ''('' @ to_string r joined @ '')'') else joined);
                result' =
                  (if shouldParseFloat opt then
                     (case parse_float r (to_string r result) of
                        None \<Rightarrow> result
                      | Some float \<Rightarrow>
                          if Str (number_to_string r float) = result then Num float else result)
                   else result)
            in case callback opt of
                 None \<Rightarrow> Inr result'
               | Some cb \<Rightarrow>
                   (case result' of
                      Arr elems \<Rightarrow>
                        if spreadCallbackArguments opt then apply_callback r cb elems
                        else apply_callback r cb [result']
                    | _ \<Rightarrow> apply_callback r cb [result']))"

fun is_getter :: "resolved \<Rightarrow> bool" where
  "is_getter (Getter g) = True"
| "is_getter (Value v) = False"

definition createRuntimeFunction ::
  "(jsval \<Rightarrow> error + resolved) \<Rightarrow> (getter \<Rightarrow> error + jsval) \<Rightarrow> runtime \<Rightarrow>
   CreateRuntimeFunctionOptions \<Rightarrow> string \<Rightarrow> jsval list \<Rightarrow> error + resolved" where
  "createRuntimeFunction extract call r opt name arguments =
     and_then (sequence (map extract arguments)) (\<lambda>args.
       if list_ex is_getter args then Inr (Getter (ValueFn opt name args))
       else and_then (valueFn call r opt name args) (\<lambda>v. Inr (Value v)))"

text \<open>
  \<^verbatim>\<open>specifics[key]\<close> on the argument of \<^verbatim>\<open>fontScaleSelect\<close> and
  \<^verbatim>\<open>pixelScaleSelect\<close>: an object is looked up, \<^verbatim>\<open>undefined\<close> and \<^verbatim>\<open>null\<close>
  raise, and indexing a string or an array is not followed.
\<close>

definition get_member :: "jsval \<Rightarrow> string \<Rightarrow> error + jsval" where
  "get_member v key =
     (case v of
        Undefined \<Rightarrow> Inl TypeError
      | Null \<Rightarrow> Inl TypeError
      | Obj kvs \<Rightarrow> Inr (case map_of kvs key of None \<Rightarrow> Undefined | Some x \<Rightarrow> x)
      | Str s \<Rightarrow> Inl NotModelled
      | Arr xs \<Rightarrow> Inl NotModelled
      | _ \<Rightarrow> Inr Undefined)"

definition scale_select :: "runtime \<Rightarrow> real \<Rightarrow> jsval \<Rightarrow> error + jsval" where
  "scale_select r pixelRatio specifics =
     and_then (get_member specifics (number_to_string r pixelRatio)) (\<lambda>a.
       if \<not> nullish a then Inr a
       else and_then (get_member specifics ''native'') (\<lambda>b.
         if \<not> nullish b then Inr b else get_member specifics ''default''))"

text \<open>
  Modelled from the spec: \<^verbatim>\<open>isRuntimeValue\<close> of \<^verbatim>\<open>../../shared\<close> is not among the
  sources; a runtime-value expression is an object \<^verbatim>\<open>{ name, arguments }\<close> of type
  \<^verbatim>\<open>"runtime"\<close>, here the constructor \<open>Runtime\<close>.
\<close>

fun isRuntimeValue :: "jsval \<Rightarrow> bool" where
  "isRuntimeValue (Runtime name arguments) = True"
| "isRuntimeValue v = False"

text \<open>
  \<^verbatim>\<open>extractValue\<close>, over its own recursive calls (\<open>extract\<close>) and the calls of the
  functions it has made (\<open>call\<close>).  \<^verbatim>\<open>context.interaction\<close> is the proxy of
  \<^verbatim>\<open>createInteractionProxy\<close>, in which every property is a Signal, so the branches of
  \<^verbatim>\<open>ch\<close> and \<^verbatim>\<open>cw\<close> for a missing layout Signal are never taken.
\<close>

definition lookup_variable ::
  "(getter \<Rightarrow> error + jsval) \<Rightarrow> env \<Rightarrow> string \<Rightarrow> error + jsval" where
  "lookup_variable call E name =
     and_then
       (case flat_variables (flatStyleMeta E) of
          None \<Rightarrow> Inr Undefined
        | Some vars \<Rightarrow>
            (case map_of vars name of None \<Rightarrow> Inr Undefined | Some r \<Rightarrow> read_resolved call r))
       (\<lambda>own.
          if nullish own then
            Inr (createCSSVariableSignal_get (colorScheme (rt E)) (defaultVariables (rt E))
                   (context_variables (ctx E)) name)
          else
            (case own of
               Obj kvs \<Rightarrow> if ''get'' \<in> fst ` set kvs then Inl TypeError else Inr own
             | _ \<Rightarrow> Inr own))"

definition extractValue_body ::
  "(jsval \<Rightarrow> error + resolved) \<Rightarrow> (getter \<Rightarrow> error + jsval) \<Rightarrow> env \<Rightarrow> jsval \<Rightarrow> error + resolved" where
  "extractValue_body extract call E value =
     (case value of
        Runtime name arguments \<Rightarrow>
          (let arg = first_argument arguments;
               crf = createRuntimeFunction extract call (rt E);
               plain = default_options\<lparr> wrap := False \<rparr>
           in
           if name = ''var'' then
             and_then (lookup_variable call E (to_string (rt E) arg)) (\<lambda>variable.
               Inr (Getter (VarGetter variable)))
           else if name = ''vh'' then
             Inr (Value (round_js (js_times (rt E) (Num (vh (rt E) / 100)) arg)))
           else if name = ''vw'' then
             Inr (Value (round_js (js_times (rt E) (Num (vw (rt E) / 100)) arg)))
           else if name = ''rem'' then
             Inr (Value (round_js (js_times (rt E) (Num (rem (rt E))) arg)))
           else if name = ''em'' then
             Inr (Getter (EmGetter arg))
           else if name = ''ch'' then
             (let reference =
                    (if truthy (ch (options E)) then ch (options E)
                     else interaction_get (interaction (ctx E)) ''layoutHeight'')
              in if truthy reference then Inr (Value (round_js (js_times (rt E) reference arg)))
                 else Inr (Getter (ChGetter arg)))
           else if name = ''cw'' then
             (let reference =
                    (if truthy (cw (options E)) then cw (options E)
                     else interaction_get (interaction (ctx E)) ''layoutWidth'')
              in if truthy reference then Inr (Value (round_js (js_times (rt E) reference arg)))
                 else Inr (Getter (CwGetter arg)))
           else if name \<in> {''perspective'', ''translateX'', ''translateY'', ''scaleX'', ''scaleY'',
                            ''scale''} then
             crf plain name arguments
           else if name \<in> {''rotate'', ''rotateX'', ''rotateY'', ''rotateZ'', ''skewX'', ''skewY''} then
             crf (plain\<lparr> shouldParseFloat := False \<rparr>) name arguments
           else if name = ''hairlineWidth'' then
             Inr (Value (hairlineWidth (rt E)))
           else if name = ''platformSelect'' then
             crf plain name [platform_select (rt E) arg]
           else if name = ''fontScaleSelect'' then
             and_then (scale_select (rt E) (font_scale (rt E)) arg) (\<lambda>match.
               if match = Undefined then Inr (Value Undefined) else crf plain name [match])
           else if name = ''pixelScaleSelect'' then
             and_then (scale_select (rt E) (pixel_ratio (rt E)) arg) (\<lambda>match.
               if match = Undefined then Inr (Value Undefined) else crf plain name [match])
           else if name = ''platformColor'' then
             crf (plain\<lparr> joinArguments := False, spreadCallbackArguments := True,
                         callback := Some PlatformColorCallback \<rparr>) name arguments
           else if name = ''pixelScale'' then
             crf (plain\<lparr> callback := Some PixelScale \<rparr>) name arguments
           else if name = ''fontScale'' then
             crf (plain\<lparr> callback := Some FontScale \<rparr>) name arguments
           else if name = ''getPixelSizeForLayoutSize'' then
             crf (plain\<lparr> callback := Some PixelSizeForLayoutSize \<rparr>) name arguments
           else if name = ''roundToNearestPixel'' then
             crf plain name [roundToNearestPixel (rt E) arg]
           else if name = ''rgb'' then
             crf (default_options\<lparr> joinArguments := False, callback := Some Rgb \<rparr>) name arguments
           else crf default_options name arguments)
      | _ \<Rightarrow> Inr (Value value))"

text \<open>Calling one of the functions that \<^verbatim>\<open>extractValue\<close> has made.\<close>

definition call_body ::
  "(jsval \<Rightarrow> error + resolved) \<Rightarrow> (getter \<Rightarrow> error + jsval) \<Rightarrow> env \<Rightarrow> getter \<Rightarrow> error + jsval" where
  "call_body extract call E g =
     (case g of
        VarGetter variable \<Rightarrow> and_then (extract variable) (read_resolved call)
      | EmGetter multiplier \<Rightarrow>
          if ''fontSize'' \<in> fst ` set (flatStyle E) then
            and_then (get_property call (flatStyle E) ''fontSize'') (\<lambda>fontSize.
              Inr (round_js (js_times (rt E) (if truthy fontSize then fontSize else Num 0) multiplier)))
          else Inr Undefined
      | ChGetter multiplier \<Rightarrow>
          Inr (round_js (js_times (rt E) (interaction_get (interaction (ctx E)) ''layoutHeight'') multiplier))
      | CwGetter multiplier \<Rightarrow>
          Inr (round_js (js_times (rt E) (interaction_get (interaction (ctx E)) ''layoutWidth'') multiplier))
      | ValueFn opt name args \<Rightarrow> valueFn call (rt E) opt name args)"

text \<open>
  The two call each other, and a variable may refer to itself through the context, so
  they take fuel, one unit a call; fuel run out is \<open>StackOverflow\<close>.
\<close>

primrec resolver ::
  "nat \<Rightarrow> env \<Rightarrow> (jsval \<Rightarrow> error + resolved) \<times> (getter \<Rightarrow> error + jsval)" where
  "resolver 0 = (\<lambda>E. (\<lambda>v. Inl StackOverflow, \<lambda>g. Inl StackOverflow))"
| "resolver (Suc n) =
     (\<lambda>E. (extractValue_body (fst (resolver n E)) (snd (resolver n E)) E,
           call_body (fst (resolver n E)) (snd (resolver n E)) E))"

definition extractValue :: "nat \<Rightarrow> env \<Rightarrow> jsval \<Rightarrow> error + resolved" where
  "extractValue n E value = fst (resolver n E) value"

definition call_getter :: "nat \<Rightarrow> env \<Rightarrow> getter \<Rightarrow> error + jsval" where
  "call_getter n E g = snd (resolver n E) g"

text \<open>
  \<^verbatim>\<open>extractAndDefineProperty\<close>: nothing is defined for \<^verbatim>\<open>undefined\<close>; otherwise
  the key is split at its dots, the objects on the way are made where they are missing,
  and the last token is defined as an accessor.  A token on the way that names a property
  holding \<^verbatim>\<open>undefined\<close>, \<^verbatim>\<open>null\<close> or a primitive value raises.
\<close>

fun define_path :: "string list \<Rightarrow> resolved \<Rightarrow> Style \<Rightarrow> error + Style" where
  "define_path [] g target = Inr target"
| "define_path [token] g target = Inr (AList.update token (Leaf g) target)"
| "define_path (token # rest) g target =
     (case map_of target token of
        None \<Rightarrow>
          and_then (define_path rest g []) (\<lambda>inner. Inr (AList.update token (Node inner) target))
      | Some (Node kvs) \<Rightarrow>
          and_then (define_path rest g kvs) (\<lambda>inner. Inr (AList.update token (Node inner) target))
      | Some (Leaf (Value v)) \<Rightarrow>
          (case v of
             Obj kvs \<Rightarrow> Inl NotModelled
           | Arr xs \<Rightarrow> Inl NotModelled
           | Runtime name args \<Rightarrow> Inl NotModelled
           | _ \<Rightarrow> Inl TypeError)
      | Some _ \<Rightarrow> Inl NotModelled)"

definition extractAndDefineProperty :: "nat \<Rightarrow> env \<Rightarrow> string \<Rightarrow> jsval \<Rightarrow> error + Style" where
  "extractAndDefineProperty n E key value =
     and_then (extractValue n E value) (\<lambda>getterOrValue.
       if getterOrValue = Value Undefined then Inr (flatStyle E)
       else define_path (split_at CHR ''.'' key) getterOrValue (flatStyle E))"

section \<open>The cascade flattener (native/flatten-style)\<close>

text \<open>
  A \<^verbatim>\<open>StyleProp\<close>: a falsy value, a style object with the metadata that
  \<^verbatim>\<open>styleMetaMap\<close> holds for it, or an array.
\<close>

datatype StyleProp =
    NoStyle
  | Fragment "(string \<times> jsval) list" "StyleMeta option"
  | StyleArray "StyleProp list"

text \<open>The accumulator: the flat style and what \<^verbatim>\<open>styleMetaMap\<close> holds for it.\<close>

type_synonym accumulator = "Style \<times> FlatStyleMeta option"

definition no_meta :: StyleMeta where
  "no_meta = \<lparr> media = None, variables = None, pseudoClasses = None, animations = None,
               container = None, containerQuery = None, transition = None,
               requiresLayout = False \<rparr>"

definition new_flat_meta :: FlatStyleMeta where
  "new_flat_meta = \<lparr> flat_media = None, flat_containerQuery = None, flat_variables = None,
                     flat_pseudoClasses = None, flat_animations = None, flat_container = None,
                     flat_transition = None, flat_requiresLayout = False \<rparr>"

text \<open>\<^verbatim>\<open>{ ...a, ...b }\<close>, where \<open>b\<close> may be \<^verbatim>\<open>undefined\<close>.\<close>

definition spread :: "(string \<times> 'a) list \<Rightarrow> (string \<times> 'a) list option \<Rightarrow> (string \<times> 'a) list" where
  "spread a b = fold (\<lambda>(k, v). AList.update k v) (case b of None \<Rightarrow> [] | Some kvs \<Rightarrow> kvs) a"

text \<open>\<^verbatim>\<open>value[i]\<close> in the cases \<^verbatim>\<open>textShadow\<close> and \<^verbatim>\<open>shadowOffset\<close>.\<close>

definition index :: "runtime \<Rightarrow> jsval \<Rightarrow> nat \<Rightarrow> error + jsval" where
  "index r v i =
     (case v of
        Undefined \<Rightarrow> Inl TypeError
      | Null \<Rightarrow> Inl TypeError
      | Arr xs \<Rightarrow> Inr (if i < length xs then xs ! i else Undefined)
      | Str s \<Rightarrow> Inr (if i < length s then Str [s ! i] else Undefined)
      | Obj kvs \<Rightarrow>
          Inr (case map_of kvs (number_to_string r (of_nat i)) of None \<Rightarrow> Undefined | Some x \<Rightarrow> x)
      | _ \<Rightarrow> Inr Undefined)"

text \<open>The loop over \<^verbatim>\<open>styleMeta.variables\<close>: a name that is set already is skipped.\<close>

fun define_variables ::
  "nat \<Rightarrow> runtime \<Rightarrow> ComponentContext \<Rightarrow> FlattenStyleOptions \<Rightarrow> Style \<Rightarrow>
   (string \<times> jsval) list \<Rightarrow> FlatStyleMeta \<Rightarrow> error + FlatStyleMeta" where
  "define_variables n r c opt flat [] fm = Inr fm"
| "define_variables n r c opt flat ((key, value) # rest) fm =
     (let vars = (case flat_variables fm of None \<Rightarrow> [] | Some vs \<Rightarrow> vs)
      in if key \<in> fst ` set vars then define_variables n r c opt flat rest fm
         else
           and_then
             (extractValue n \<lparr> rt = r, ctx = c, options = opt, flatStyle = flat,
                               flatStyleMeta = fm \<rparr> value)
             (\<lambda>getterOrValue.
                define_variables n r c opt flat rest
                  (fm\<lparr> flat_variables := Some (vars @ [(key, getterOrValue)]) \<rparr>)))"

text \<open>
  One element of a \<^verbatim>\<open>transform\<close> array: an extracted function (it has a
  \<^verbatim>\<open>type\<close>) or a React Native transform object, each of whose entries becomes an
  object of its own.
\<close>

fun transform_entries ::
  "nat \<Rightarrow> env \<Rightarrow> (string \<times> jsval) list \<Rightarrow> error + entry list" where
  "transform_entries n E [] = Inr []"
| "transform_entries n E ((tKey, tValue) # rest) =
     and_then (extractValue n E tValue) (\<lambda>getterOrValue.
       and_then (transform_entries n E rest) (\<lambda>more.
         Inr (Node [(tKey, Leaf getterOrValue)] # more)))"

definition transform_element :: "nat \<Rightarrow> env \<Rightarrow> jsval \<Rightarrow> error + entry list" where
  "transform_element n E transform =
     (case transform of
        Runtime name args \<Rightarrow>
          and_then (extractValue n E transform) (\<lambda>getterOrValue.
            case getterOrValue of
              Getter g \<Rightarrow> Inr [Node [(name, Leaf (Getter g))]]
            | Value v \<Rightarrow> Inr [])
      | Obj kvs \<Rightarrow>
          if ''type'' \<in> fst ` set kvs then Inr []
          else transform_entries n E kvs
      | Arr xs \<Rightarrow>
          transform_entries n E
            (map (\<lambda>i. (number_to_string (rt E) (of_nat i), xs ! i)) [0 ..< length xs])
      | _ \<Rightarrow> Inl TypeError)"

fun transform_elements :: "nat \<Rightarrow> env \<Rightarrow> jsval list \<Rightarrow> error + entry list" where
  "transform_elements n E [] = Inr []"
| "transform_elements n E (t # ts) =
     and_then (transform_element n E t) (\<lambda>these.
       and_then (transform_elements n E ts) (\<lambda>more. Inr (these @ more)))"

text \<open>One entry of \<^verbatim>\<open>Object.entries(style)\<close>.\<close>

definition flatten_property :: "nat \<Rightarrow> env \<Rightarrow> string \<Rightarrow> jsval \<Rightarrow> error + Style" where
  "flatten_property n E key value =
     (if key = ''transform'' then
        (case value of
           Arr ts \<Rightarrow>
             and_then (transform_elements n E ts) (\<lambda>transforms.
               Inr (AList.update ''transform'' (Elems transforms) (flatStyle E)))
         | Str s \<Rightarrow>
             if s = [] then Inr (AList.update ''transform'' (Elems []) (flatStyle E))
             else Inl TypeError
         | _ \<Rightarrow> Inl TypeError)
      else if key = ''textShadow'' \<or> key = ''shadowOffset'' then
        and_then (index (rt E) value 0) (\<lambda>w.
          and_then (extractAndDefineProperty n E (key @ ''.width'') w) (\<lambda>flat1.
            and_then (index (rt E) value 1) (\<lambda>h.
              extractAndDefineProperty n (E\<lparr> flatStyle := flat1 \<rparr>) (key @ ''.height'') h)))
      else extractAndDefineProperty n E key value)"

fun flatten_properties :: "nat \<Rightarrow> env \<Rightarrow> (string \<times> jsval) list \<Rightarrow> error + Style" where
  "flatten_properties n E [] = Inr (flatStyle E)"
| "flatten_properties n E ((key, value) # rest) =
     and_then (flatten_property n E key value) (\<lambda>flat1.
       flatten_properties n (E\<lparr> flatStyle := flat1 \<rparr>) rest)"

text \<open>The metadata of a fragment that passed its conditions, merged into the accumulator's.\<close>

definition merge_meta :: "StyleMeta \<Rightarrow> FlatStyleMeta \<Rightarrow> FlatStyleMeta" where
  "merge_meta styleMeta fm =
     (let fm1 = (case animations styleMeta of
                   None \<Rightarrow> fm
                 | Some a \<Rightarrow> fm\<lparr> flat_animations := Some (spread a (flat_animations fm)) \<rparr>);
          fm2 = (case transition styleMeta of
                   None \<Rightarrow> fm1
                 | Some t \<Rightarrow> fm1\<lparr> flat_transition := Some (spread t (flat_transition fm1)) \<rparr>);
          fm3 = (case container styleMeta of
                   None \<Rightarrow> fm2
                 | Some c \<Rightarrow>
                     (let old = (case flat_container fm2 of
                                   None \<Rightarrow> \<lparr> names = Arr [], container_type = Str ''normal'' \<rparr>
                                 | Some x \<Rightarrow> x);
                          named = (if truthy (names c) then old\<lparr> names := names c \<rparr> else old);
                          typed = (if truthy (container_type c)
                                   then named\<lparr> container_type := container_type c \<rparr> else named)
                      in fm2\<lparr> flat_container := Some typed \<rparr>))
      in if requiresLayout styleMeta then fm3\<lparr> flat_requiresLayout := True \<rparr> else fm3)"

text \<open>
  \<^verbatim>\<open>flattenStyle\<close> on one style object: the conditions, the metadata, the variables,
  the properties.
\<close>

definition flatten_fragment ::
  "nat \<Rightarrow> runtime \<Rightarrow> ComponentContext \<Rightarrow> FlattenStyleOptions \<Rightarrow> (string \<times> jsval) list \<Rightarrow>
   StyleMeta option \<Rightarrow> accumulator \<Rightarrow> error + accumulator" where
  "flatten_fragment n r c opt style meta acc =
     (let styleMeta = (case meta of None \<Rightarrow> no_meta | Some m \<Rightarrow> m);
          flat = fst acc;
          fm0 = (case snd acc of None \<Rightarrow> new_flat_meta | Some m \<Rightarrow> m);
          fm = (case pseudoClasses styleMeta of
                  None \<Rightarrow> fm0
                | Some pc \<Rightarrow> fm0\<lparr> flat_pseudoClasses := Some (spread pc (flat_pseudoClasses fm0)) \<rparr>)
      in
      if (case pseudoClasses styleMeta of
            None \<Rightarrow> False
          | Some pc \<Rightarrow> \<not> testPseudoClasses r (interaction c) pc)
      then Inr (flat, Some fm)
      else if (case media styleMeta of
                 None \<Rightarrow> False
               | Some ms \<Rightarrow> \<not> list_all (testMediaQuery r) ms)
      then Inr (flat, Some fm)
      else if \<not> testContainerQuery r (containerQuery styleMeta) (containers c)
      then Inr (flat, Some fm)
      else
        and_then
          (case variables styleMeta of
             None \<Rightarrow> Inr (merge_meta styleMeta fm)
           | Some vars \<Rightarrow>
               (let fm1 = merge_meta styleMeta fm;
                    fm2 = (case flat_variables fm1 of
                             None \<Rightarrow> fm1\<lparr> flat_variables := Some [] \<rparr>
                           | Some vs \<Rightarrow> fm1)
                in define_variables n r c opt flat vars fm2))
          (\<lambda>fm3.
             and_then
               (flatten_properties n
                  \<lparr> rt = r, ctx = c, options = opt, flatStyle = flat, flatStyleMeta = fm3 \<rparr> style)
               (\<lambda>flat1. Inr (flat1, Some fm3))))"

text \<open>
  \<^verbatim>\<open>flattenStyle\<close>.  An array is flattened by one level, sorted by
  \<^verbatim>\<open>styleSpecificityCompareFn\<close> (of \<^verbatim>\<open>../specificity\<close>, not among the sources: the
  sort is given as \<open>sort_styles\<close>) and its elements are flattened in that order.
\<close>

definition flat_once :: "StyleProp list \<Rightarrow> StyleProp list" where
  "flat_once xs = concat (map (\<lambda>x. case x of StyleArray ys \<Rightarrow> ys | _ \<Rightarrow> [x]) xs)"

fun each_style ::
  "(StyleProp \<Rightarrow> accumulator \<Rightarrow> error + accumulator) \<Rightarrow> StyleProp list \<Rightarrow> accumulator \<Rightarrow>
   error + accumulator" where
  "each_style f [] acc = Inr acc"
| "each_style f (s # ss) acc = and_then (f s acc) (each_style f ss)"

primrec flattenStyle ::
  "nat \<Rightarrow> (StyleProp list \<Rightarrow> StyleProp list) \<Rightarrow> runtime \<Rightarrow> ComponentContext \<Rightarrow>
   FlattenStyleOptions \<Rightarrow> StyleProp \<Rightarrow> accumulator \<Rightarrow> error + accumulator" where
  "flattenStyle 0 = (\<lambda>sort_styles r c opt style acc. Inl StackOverflow)"
| "flattenStyle (Suc n) =
     (\<lambda>sort_styles r c opt style acc.
        case style of
          NoStyle \<Rightarrow> Inr acc
        | StyleArray xs \<Rightarrow>
            each_style (flattenStyle n sort_styles r c opt) (sort_styles (flat_once xs)) acc
        | Fragment props meta \<Rightarrow> flatten_fragment n r c opt props meta acc)"

section \<open>Observers of the resolver and the flattener\<close>


text \<open>
  A platform for the examples: a viewport of 800 by 400, a root font size of 14, the
  light colour scheme, no default variables; a pseudo-class passes when the component's
  interaction state has it, the media query 0 passes and the others fail, and a
  container query fails.
\<close>

definition example_runtime :: runtime where
  "example_runtime =
     \<lparr> platform_select = (\<lambda>v. v), pixel_ratio = 2, font_scale = 1,
       getPixelSizeForLayoutSize = (\<lambda>v. v), roundToNearestPixel = (\<lambda>v. v),
       PlatformColor = (\<lambda>vs. Arr vs), hairlineWidth = Num (1 / 2),
       number_to_string = (\<lambda>x. if x = 1 then ''1'' else if x = 2 then ''2'' else ''0''),
       parse_float = (\<lambda>s. None), string_to_number = (\<lambda>s. None),
       vh = 800, vw = 400, rem = 14, colorScheme = Light, defaultVariables = Map.empty,
       testPseudoClasses =
         (\<lambda>i pc. list_all (\<lambda>(k, v). if truthy v then truthy (interaction_get i k) else True) pc),
       testMediaQuery = (\<lambda>m. m = 0),
       testContainerQuery = (\<lambda>q c. q = None) \<rparr>"

text \<open>A component below the root, with no interaction so far.\<close>

definition example_context :: ComponentContext where
  "example_context =
     \<lparr> context_variables = createVariableProxy rootComponentContext, interaction = Map.empty,
       containers = [] \<rparr>"

definition example_env :: env where
  "example_env =
     \<lparr> rt = example_runtime, ctx = example_context,
       options = \<lparr> ch = Undefined, cw = Undefined \<rparr>, flatStyle = [],
       flatStyleMeta = new_flat_meta \<rparr>"

text \<open>The conditions check of \<^verbatim>\<open>flattenStyle\<close>: all three tests pass.\<close>

definition passes :: "runtime \<Rightarrow> ComponentContext \<Rightarrow> StyleMeta \<Rightarrow> bool" where
  "passes r c styleMeta \<longleftrightarrow>
     (case pseudoClasses styleMeta of
        None \<Rightarrow> True
      | Some pc \<Rightarrow> testPseudoClasses r (interaction c) pc) \<and>
     (case media styleMeta of None \<Rightarrow> True | Some ms \<Rightarrow> list_all (testMediaQuery r) ms) \<and>
     testContainerQuery r (containerQuery styleMeta) (containers c)"

text \<open>What the conditions check does to the accumulator's metadata before the first test.\<close>

definition fold_pseudoClasses :: "StyleMeta \<Rightarrow> FlatStyleMeta \<Rightarrow> FlatStyleMeta" where
  "fold_pseudoClasses styleMeta fm =
     (case pseudoClasses styleMeta of
        None \<Rightarrow> fm
      | Some pc \<Rightarrow> fm\<lparr> flat_pseudoClasses := Some (spread pc (flat_pseudoClasses fm)) \<rparr>)"

definition example_options :: FlattenStyleOptions where
  "example_options = \<lparr> ch = Undefined, cw = Undefined \<rparr>"

text \<open>The names that \<^verbatim>\<open>extractValue\<close> has a case for.\<close>

definition special_names :: "string set" where
  "special_names =
     {''var'', ''vh'', ''vw'', ''rem'', ''em'', ''ch'', ''cw'', ''perspective'', ''translateX'',
      ''translateY'', ''scaleX'', ''scaleY'', ''scale'', ''rotate'', ''rotateX'', ''rotateY'',
      ''rotateZ'', ''skewX'', ''skewY'', ''hairlineWidth'', ''platformSelect'',
      ''fontScaleSelect'', ''pixelScaleSelect'', ''platformColor'', ''pixelScale'', ''fontScale'',
      ''getPixelSizeForLayoutSize'', ''roundToNearestPixel'', ''rgb''}"


section \<open>Properties of the Signal graph\<close>

lemma upd_node_simps [simp]:
  "next_ref (upd_node r f g) = next_ref g"
  "context_stack (upd_node r f g) = context_stack g"
  "immediates (upd_node r f g) = immediates g"
  "trace (upd_node r f g) = trace g"
  "nodes (upd_node r f g) = (nodes g)(r := f (nodes g r))"
  by (simp_all add: upd_node_def)

lemma emit_simps [simp]:
  "next_ref (emit e g) = next_ref g"
  "context_stack (emit e g) = context_stack g"
  "immediates (emit e g) = immediates g"
  "trace (emit e g) = trace g @ [e]"
  "nodes (emit e g) = nodes g"
  by (simp_all add: emit_def)

lemma members_simps [simp]:
  "members [] = {}"
  "members (set_add x xs) = insert x (members xs)"
  "members (set_delete x xs) = members xs - {x}"
  "members (set_clear xs) = {}"
  by (auto simp: members_def set_add_def set_delete_def set_clear_def)

lemma members_Cons [simp]:
  "members (None # xs) = members xs"
  "members (Some x # xs) = insert x (members xs)"
  by (auto simp: members_def)

lemma signal_get_running:
  "context_stack g \<noteq> [] \<Longrightarrow>
   signal_get s g = (sig_value (nodes g s), track (last (context_stack g)) s g)"
  by (cases "context_stack g") (auto simp: signal_get_def track_def Let_def)

lemma track_simps [simp]:
  "next_ref (track c s g) = next_ref g"
  "context_stack (track c s g) = context_stack g"
  "immediates (track c s g) = immediates g"
  "trace (track c s g) = trace g @ [Tracked c s (sig_value (nodes g s))]"
  "values_of (track c s g) = values_of g"
  "sig_value (nodes (track c s g) r) = sig_value (nodes g r)"
  "fn (nodes (track c s g) r) = fn (nodes g r)"
  "waiting (nodes (track c s g) r) = waiting (nodes g r)"
  "fresh (nodes (track c s g) r) = fresh (nodes g r)"
  "subscriptions (nodes (track c s g) r) =
     (if r = s then set_add (Computation c) (subscriptions (nodes g r)) else subscriptions (nodes g r))"
  "dependencies (nodes (track c s g) r) =
     (if r = c then set_add s (dependencies (nodes g r)) else dependencies (nodes g r))"
  by (auto simp: track_def values_of_def fun_eq_iff)

lemma run_tracked_eq:
  "context_stack g \<noteq> [] \<Longrightarrow>
   run_tracked f g =
     (tracked_result f (values_of g),
      track_all (last (context_stack g)) (tracked_reads f (values_of g)) g)"
proof (induction f arbitrary: g)
  case (Return v)
  show ?case by simp
next
  case (Get s k)
  have ne: "context_stack (track (last (context_stack g)) s g) \<noteq> []"
    using Get.prems by simp
  have "run_tracked (k (sig_value (nodes g s))) (track (last (context_stack g)) s g) =
      (tracked_result (k (sig_value (nodes g s))) (values_of g),
       track_all (last (context_stack g)) (tracked_reads (k (sig_value (nodes g s))) (values_of g))
         (track (last (context_stack g)) s g))"
    using Get.IH [OF rangeI ne, of "sig_value (nodes g s)"] by simp
  then show ?case
    using Get.prems by (simp add: signal_get_running values_of_def)
qed

lemma track_all_frame [simp]:
  "next_ref (track_all c ss g) = next_ref g"
  "context_stack (track_all c ss g) = context_stack g"
  "immediates (track_all c ss g) = immediates g"
  "sig_value (nodes (track_all c ss g) r) = sig_value (nodes g r)"
  "fn (nodes (track_all c ss g) r) = fn (nodes g r)"
  "waiting (nodes (track_all c ss g) r) = waiting (nodes g r)"
  "fresh (nodes (track_all c ss g) r) = fresh (nodes g r)"
  by (induction ss arbitrary: g; simp)+

lemma track_all_values [simp]: "values_of (track_all c ss g) = values_of g"
  by (simp add: values_of_def)

lemma track_all_trace:
  "trace (track_all c ss g) = trace g @ map (\<lambda>s. Tracked c s (sig_value (nodes g s))) ss"
  by (induction ss arbitrary: g) simp_all

lemma track_all_dependencies:
  "members (dependencies (nodes (track_all c ss g) r)) =
     (if r = c then members (dependencies (nodes g r)) \<union> set ss
      else members (dependencies (nodes g r)))"
  by (induction ss arbitrary: g) auto

lemma track_all_dependencies_other:
  "r \<noteq> c \<Longrightarrow> dependencies (nodes (track_all c ss g) r) = dependencies (nodes g r)"
  by (induction ss arbitrary: g) auto

lemma track_all_subscriptions:
  "members (subscriptions (nodes (track_all c ss g) s)) =
     (if s \<in> set ss then insert (Computation c) (members (subscriptions (nodes g s)))
      else members (subscriptions (nodes g s)))"
  by (induction ss arbitrary: g) auto

lemma track_all_subscriptions_unread:
  "s \<notin> set ss \<Longrightarrow> subscriptions (nodes (track_all c ss g) s) = subscriptions (nodes g s)"
  by (induction ss arbitrary: g) auto

lemma cleanup_deps_frame [simp]:
  "next_ref (cleanup_deps c ds g) = next_ref g"
  "context_stack (cleanup_deps c ds g) = context_stack g"
  "immediates (cleanup_deps c ds g) = immediates g"
  "trace (cleanup_deps c ds g) = trace g"
  "sig_value (nodes (cleanup_deps c ds g) r) = sig_value (nodes g r)"
  "fn (nodes (cleanup_deps c ds g) r) = fn (nodes g r)"
  "waiting (nodes (cleanup_deps c ds g) r) = waiting (nodes g r)"
  "fresh (nodes (cleanup_deps c ds g) r) = fresh (nodes g r)"
  "dependencies (nodes (cleanup_deps c ds g) r) = dependencies (nodes g r)"
  by (induction c ds g rule: cleanup_deps.induct; simp)+


lemma cleanup_deps_nil [simp]: "cleanup_deps c [] g = g"
  by simp

lemma cleanup_frame [simp]:
  "next_ref (cleanup c g) = next_ref g"
  "context_stack (cleanup c g) = context_stack g"
  "immediates (cleanup c g) = immediates g"
  "trace (cleanup c g) = trace g"
  "sig_value (nodes (cleanup c g) r) = sig_value (nodes g r)"
  "fn (nodes (cleanup c g) r) = fn (nodes g r)"
  "waiting (nodes (cleanup c g) r) = waiting (nodes g r)"
  "fresh (nodes (cleanup c g) r) = fresh (nodes g r)"
  by (simp_all add: cleanup_def)

lemma cleanup_dependencies:
  "members (dependencies (nodes (cleanup c g) r)) =
     (if r = c then {} else members (dependencies (nodes g r)))"
  by (simp add: cleanup_def)


lemma run_Suc [simp]:
  "run (Suc n) (Set s v) g = set_body (run n) s v g"
  "run (Suc n) (StaleLoop s change fr i) g = stale_loop_body (run n) s change fr i g"
  "run (Suc n) (Stale c change fr) g = stale_body (run n) c change fr g"
  "run (Suc n) (Execute c) g = execute_body (run n) c g"
  by simp_all

declare run.simps(2) [simp del]

text \<open>
  C9: \<^verbatim>\<open>createComputation(fn)\<close> returns, having invoked \<open>fn\<close> exactly once
  with the new Computation on top of the tracking stack: the trace grows by one
  \<open>Executed\<close> event followed by the reads of that run; \<^verbatim>\<open>snapshot()\<close> is the result
  of that run; the dependencies are exactly the Signals read, and the Computation is
  subscribed to each of them.  The tracked function reads Signals that exist already
  (it cannot read the Computation being created).
\<close>

theorem C9_createComputation:
  assumes fresh_ref: "next_ref g \<notin> set (tracked_reads f ((values_of g)(next_ref g := None)))"
  shows "\<exists>g'. createComputation (Suc (Suc (Suc n))) f g = Some (next_ref g, g') \<and>
           snapshot (next_ref g) g' = tracked_result f ((values_of g)(next_ref g := None)) \<and>
           trace g' = trace g @ Executed (next_ref g) #
             map (\<lambda>s. Tracked (next_ref g) s (values_of g s))
               (tracked_reads f ((values_of g)(next_ref g := None))) \<and>
           members (dependencies (nodes g' (next_ref g))) =
             set (tracked_reads f ((values_of g)(next_ref g := None))) \<and>
           set (tracked_reads f ((values_of g)(next_ref g := None))) \<subseteq>
             {s. Computation (next_ref g) \<in> members (subscriptions (nodes g' s))}"
proof -
  define c where "c = next_ref g"
  define vals where "vals = (values_of g)(c := None)"
  define g1 where "g1 = g\<lparr> nodes := (nodes g)(c := empty_node\<lparr> sig_value := None \<rparr>), next_ref := Suc c \<rparr>"
  define g0 where "g0 = upd_node c (\<lambda>nd. nd\<lparr> fn := Some f, waiting := 0, fresh := False, dependencies := [] \<rparr>) g1"
  define g3 where "g3 = upd_node c (\<lambda>nd. nd\<lparr> waiting := 0, fresh := False \<rparr>)
      ((cleanup c g0)\<lparr> context_stack := context_stack (cleanup c g0) @ [c] \<rparr>)"
  define g4 where "g4 = track_all c (tracked_reads f vals) (emit (Executed c) g3)"
  have cs: "createSignal None g = (c, g1)"
    by (simp add: createSignal_def c_def g1_def)
  have n0: "nodes g0 = (nodes g)(c := empty_node\<lparr> fn := Some f \<rparr>)"
    by (simp add: g0_def g1_def empty_node_def)
  have vals3: "values_of (emit (Executed c) g3) = vals"
    by (simp add: g3_def values_of_def vals_def n0 fun_eq_iff empty_node_def)
  have fn3: "fn (nodes g3 c) = Some f"
    by (simp add: g3_def n0)
  have ctx3: "context_stack (emit (Executed c) g3) \<noteq> []" "last (context_stack g3) = c"
    by (simp_all add: g3_def)
  have rt: "run_tracked f (emit (Executed c) g3) = (tracked_result f vals, g4)"
    using run_tracked_eq [OF ctx3(1), of f] by (simp add: vals3 ctx3(2) g4_def)
  have notin: "c \<notin> set (tracked_reads f vals)"
    using fresh_ref by (simp add: c_def vals_def)
  have subs4: "subscriptions (nodes g4 c) = []"
    using notin by (simp add: g4_def track_all_subscriptions_unread g3_def cleanup_def n0 empty_node_def)
  have val4: "sig_value (nodes g4 c) = None"
    by (simp add: g4_def g3_def n0 empty_node_def)
  define g5 where "g5 = (if tracked_result f vals = None then g4
      else (upd_node c (\<lambda>nd. nd\<lparr> sig_value := tracked_result f vals \<rparr>) g4)\<lparr> immediates := immediates g4 @ [c] \<rparr>)"
  have set4: "run (Suc (Suc n)) (Set c (tracked_result f vals)) g4 = Some g5"
    by (auto simp: set_body_def stale_loop_body_def subs4 val4 g5_def)
  define g' where "g' = g5\<lparr> context_stack := butlast (context_stack g5) \<rparr>"
  have "execute_body (run (Suc (Suc n))) c g0 = Some g'"
    unfolding execute_body_def Let_def g3_def [symmetric]
    by (simp add: fn3 rt set4 g'_def del: run_Suc)
  then have ex: "execute (Suc (Suc (Suc n))) c g0 = Some g'"
    by (simp add: execute_def)
  have cc: "createComputation (Suc (Suc (Suc n))) f g = Some (c, g')"
    unfolding createComputation_def cs prod.case g0_def [symmetric]
    by (simp add: ex)
  have snap: "snapshot c g' = tracked_result f vals"
    by (simp add: snapshot_def g'_def g5_def val4)
  have tr3: "trace g3 = trace g"
    by (simp add: g3_def g0_def g1_def)
  have rd: "\<And>s. s \<in> set (tracked_reads f vals) \<Longrightarrow> sig_value (nodes g3 s) = values_of g s"
    using notin by (auto simp: g3_def n0 values_of_def)
  have tr: "trace g' = trace g @ Executed c # map (\<lambda>s. Tracked c s (values_of g s)) (tracked_reads f vals)"
    using rd by (simp add: g'_def g5_def g4_def track_all_trace tr3)
  have deps3: "members (dependencies (nodes g3 c)) = {}"
    by (simp add: g3_def cleanup_dependencies)
  have deps: "members (dependencies (nodes g' c)) = set (tracked_reads f vals)"
    by (simp add: g'_def g5_def g4_def track_all_dependencies deps3)
  have subs: "set (tracked_reads f vals) \<subseteq> {s. Computation c \<in> members (subscriptions (nodes g' s))}"
    using notin by (auto simp: g'_def g5_def g4_def track_all_subscriptions)
  from cc snap tr deps subs show ?thesis
    unfolding c_def [symmetric] vals_def [symmetric] by blast
qed




lemma ok_call_simps [simp]:
  "ok_call g (Set s v) = (fn (nodes g s) \<noteq> None)"
  "ok_call g (StaleLoop s delta fr i)"
  "ok_call g (Stale c delta fr)"
  "ok_call g (Execute c)"
  by (simp_all add: ok_call_def)






lemma execute_prefix_fn [simp]: "fn (nodes (execute_prefix a g) r) = fn (nodes g r)"
  by (simp add: execute_prefix_def)










lemma subs_le_refl [simp]: "subs_le xs xs"
  by (simp add: subs_le_def)


lemma subs_le_add [simp]: "subs_le xs (set_add x xs)"
  by (auto simp: subs_le_def set_add_def nth_append)

lemma subs_le_delete [simp]: "subs_le xs (set_delete x xs)"
  by (auto simp: subs_le_def set_delete_def)

lemma callbacks_add [simp]: "callbacks (set_add (Computation c) xs) = callbacks xs"
  by (simp add: callbacks_def set_add_def List.map_filter_def)

lemma callbacks_delete [simp]: "callbacks (set_delete (Computation c) xs) = callbacks xs"
  by (induction xs) (auto simp: callbacks_def set_delete_def map_filter_simps split: option.splits subscriber.splits)

lemma set_delete_idem [simp]: "set_delete x (set_delete x xs) = set_delete x xs"
  by (induction xs) (auto simp: set_delete_def)

















lemma reads_in_simps [simp]:
  "reads_in c [] = {}"
  "reads_in c (es @ [Tracked c' s v]) = (if c' = c then insert s (reads_in c es) else reads_in c es)"
  "reads_in c (es @ [Executed c']) = reads_in c es"
  "reads_in c (es @ [Pulse a b d]) = reads_in c es"
  "reads_in c (es @ [Notified n v]) = reads_in c es"
  by (auto simp: reads_in_def)



lemma notify_frame [simp]:
  "nodes (notify v subs g) = nodes g"
  "immediates (notify v subs g) = immediates g"
  by (induction v subs g rule: notify.induct; simp)+





lemma graph4_proj:
  "nodes (graph4 n0 n1 n2 n3 nx stk imm tr) 0 = n0"
  "nodes (graph4 n0 n1 n2 n3 nx stk imm tr) (Suc 0) = n1"
  "nodes (graph4 n0 n1 n2 n3 nx stk imm tr) (Suc (Suc 0)) = n2"
  "nodes (graph4 n0 n1 n2 n3 nx stk imm tr) (Suc (Suc (Suc 0))) = n3"
  "next_ref (graph4 n0 n1 n2 n3 nx stk imm tr) = nx"
  "context_stack (graph4 n0 n1 n2 n3 nx stk imm tr) = stk"
  "immediates (graph4 n0 n1 n2 n3 nx stk imm tr) = imm"
  "trace (graph4 n0 n1 n2 n3 nx stk imm tr) = tr"
  by (simp_all add: graph4_def)









text \<open>Instances of C9, C3 and C2 on a Signal with one Computation and one callback.\<close>

theorem C9_createComputation_witness:
  "next_ref (witness_graph :: nat graph) \<notin>
     set (tracked_reads (Get 0 (\<lambda>r. Return r))
            ((values_of witness_graph)(next_ref witness_graph := None))) \<and>
   (\<exists>g'. createComputation 3 (Get 0 (\<lambda>r. Return r)) witness_graph = Some (2, g') \<and>
         snapshot 2 g' = Some 1 \<and>
         trace g' = [Executed 2, Tracked 2 0 (Some 1)] \<and>
         members (dependencies (nodes g' 2)) = {0} \<and>
         Computation 2 \<in> members (subscriptions (nodes g' 0)))"
proof -
  have h: "next_ref (witness_graph :: nat graph) \<notin>
     set (tracked_reads (Get 0 (\<lambda>r. Return r))
            ((values_of witness_graph)(next_ref witness_graph := None)))"
    by (simp add: witness_graph_def graph4_proj)
  from C9_createComputation [OF h, of 0] h show ?thesis
    by (auto simp: witness_graph_def graph4_proj values_of_def eval_nat_numeral)
qed




section \<open>The variable fallback chain\<close>

lemma coalesce_simps [simp]:
  "coalesce Undefined b = b"
  "coalesce Null b = b"
  "coalesce (Num x) b = Num x"
  by (simp_all add: coalesce_def)

text \<open>
  C6, as stated, fails: with the default scope holding \<open>--gap = 4\<close> and the parent
  context holding \<open>--gap = 8\<close>, a child context with no local value reads 4, not 8,
  under either colour scheme.
\<close>

theorem C6_child_reads_default_counterexample:
  "createCSSVariableSignal_get Light
     (defaultVariables_set Dark ''--gap'' (Num 4)
        (defaultVariables_set Light ''--gap'' (Num 4) Map.empty))
     (createVariableProxy
        (createCSSVariableSignal_set ''--gap'' (Num 8)
           (createVariableProxy rootComponentContext)))
     ''--gap'' \<noteq> Num 8"
  by (simp add: createVariableProxy_def rootComponentContext_def defaultVariables_set_def
      defaultVariables_get_def cs_get_def cs_set_def createColorSchemeSignal_def)

text \<open>
  C6, amended: the default-scope Signal is consulted before the parent's.  Whenever the
  default scope holds a number \<open>d\<close> for a variable under the current colour scheme, a
  context with no local value for it reads \<open>d\<close>, whatever its ancestors hold (so 4 with
  the parent at 8), and so does a fresh child context that has no parent (cleaning up
  the former parent only removes subscribers and changes no value).  The parent's value
  is reached only where the default scope holds none.
\<close>

theorem C6_variable_fallback_chain:
  "cs_get cur (defaultVariables_get defaults key) = Num d \<Longrightarrow>
   createCSSVariableSignal_get cur defaults (createVariableProxy parent) key = Num d \<and>
   createCSSVariableSignal_get cur defaults
     (createVariableProxy NoVariables) key = Num d \<and>
   (cs_get cur (defaultVariables_get defaults' key) = Undefined \<longrightarrow>
    createCSSVariableSignal_get cur defaults' (createVariableProxy parent) key =
      createCSSVariableSignal_get cur defaults' parent key)"
  by (simp add: createVariableProxy_def)

theorem C6_variable_fallback_chain_witness:
  "cs_get Light (defaultVariables_get
      (defaultVariables_set Light ''--gap'' (Num 4) Map.empty) ''--gap'') = Num 4 \<and>
   createCSSVariableSignal_get Light
     (defaultVariables_set Light ''--gap'' (Num 4) Map.empty)
     (createVariableProxy
        (createCSSVariableSignal_set ''--gap'' (Num 8)
           (createVariableProxy rootComponentContext)))
     ''--gap'' = Num 4 \<and>
   createCSSVariableSignal_get Light
     (defaultVariables_set Light ''--gap'' (Num 4) Map.empty)
     (createVariableProxy NoVariables) ''--gap'' = Num 4 \<and>
   createCSSVariableSignal_get Light Map.empty
     (createVariableProxy
        (createCSSVariableSignal_set ''--gap'' (Num 8)
           (createVariableProxy rootComponentContext)))
     ''--gap'' = Num 8"
proof -
  let ?d = "defaultVariables_set Light ''--gap'' (Num 4) Map.empty"
  let ?p = "createCSSVariableSignal_set ''--gap'' (Num 8) (createVariableProxy rootComponentContext)"
  have h: "cs_get Light (defaultVariables_get ?d ''--gap'') = Num 4"
    by (simp add: defaultVariables_set_def defaultVariables_get_def cs_get_def cs_set_def
        createColorSchemeSignal_def)
  have u: "cs_get Light (defaultVariables_get Map.empty ''--gap'') = Undefined"
    by (simp add: defaultVariables_get_def cs_get_def createColorSchemeSignal_def)
  have p: "createCSSVariableSignal_get Light Map.empty ?p ''--gap'' = Num 8"
    by (simp add: createVariableProxy_def rootComponentContext_def)
  from C6_variable_fallback_chain [OF h, of ?p Map.empty] u p h
  show ?thesis by simp
qed

section \<open>Properties of the resolver\<close>

lemma resolver_parts:
  "fst (resolver n E) = extractValue n E" "snd (resolver n E) = call_getter n E"
  by (simp_all add: fun_eq_iff extractValue_def call_getter_def)

lemma extractValue_Suc:
  "extractValue (Suc n) E v = extractValue_body (extractValue n E) (call_getter n E) E v"
  by (simp add: resolver_parts [symmetric] extractValue_def)

lemma call_getter_Suc:
  "call_getter (Suc n) E g = call_body (extractValue n E) (call_getter n E) E g"
  by (simp add: resolver_parts [symmetric] call_getter_def)

lemma extractValue_0 [simp]: "extractValue 0 E v = Inl StackOverflow"
  by (simp add: extractValue_def)

lemma call_getter_0 [simp]: "call_getter 0 E g = Inl StackOverflow"
  by (simp add: call_getter_def)







lemmas resolve_simps =
  extractValue_Suc call_getter_Suc extractValue_body_def call_body_def first_argument_def
  js_times_def interaction_get_def onLayout_def and_then_def Let_def





section \<open>Properties of the flattener\<close>

lemma flattenStyle_Fragment:
  "flattenStyle (Suc n) sort_styles r c opt (Fragment style meta) acc =
     flatten_fragment n r c opt style meta acc"
  by simp

lemma flatten_fragment_fails:
  assumes "\<not> passes r c styleMeta"
  shows "flatten_fragment n r c opt style (Some styleMeta) (flat, meta) =
     Inr (flat, Some (fold_pseudoClasses styleMeta
                        (case meta of None \<Rightarrow> new_flat_meta | Some m \<Rightarrow> m)))"
  using assms
  by (auto simp: flatten_fragment_def passes_def fold_pseudoClasses_def Let_def
      split: option.splits)

lemma keys_update: "fst ` set (AList.update k v al) = insert k (fst ` set al)"
  by (simp add: AList.dom_update)

lemma keys_fold_update:
  "fst ` set (fold (\<lambda>(k, v). AList.update k v) b a) = fst ` set a \<union> fst ` set b"
  by (induction b arbitrary: a) (auto simp: keys_update split: prod.splits)

lemma keys_spread:
  "fst ` set (spread a b) = fst ` set a \<union> (case b of None \<Rightarrow> {} | Some kvs \<Rightarrow> fst ` set kvs)"
  by (simp add: spread_def keys_fold_update split: option.splits)



text \<open>
  C4, as stated, fails: a fragment whose media query fails leaves the accumulator's
  metadata as a fragment with no condition at all leaves it; nothing records that the
  fragment had a media query.
\<close>

theorem C4_failed_media_leaves_no_record_counterexample:
  "flattenStyle (Suc 0) (\<lambda>xs. xs) example_runtime example_context example_options
     (Fragment [(''color'', Str ''red'')] (Some (no_meta\<lparr> media := Some [1] \<rparr>))) ([], None) =
     Inr ([], Some new_flat_meta) \<and>
   flattenStyle (Suc 0) (\<lambda>xs. xs) example_runtime example_context example_options
     (Fragment [] None) ([], None) = Inr ([], Some new_flat_meta) \<and>
   flat_media new_flat_meta = None"
  by (simp add: flatten_fragment_def example_runtime_def example_context_def no_meta_def
      new_flat_meta_def merge_meta_def and_then_def Let_def)

text \<open>
  C4, amended: when one of the three condition tests fails for a fragment, the flat
  style is returned as it was, so none of the fragment's properties is written, and of
  the metadata only the pseudo-class requirements of the fragment are folded into the
  accumulator's (every pseudo-class the fragment names is a key there afterwards);
  variables, animations, transition, container and the layout flag are as before, and a
  media query or a container query leaves no record.
\<close>

theorem C4_failed_condition_skips_fragment:
  assumes "\<not> passes r c styleMeta"
  shows "\<exists>fm'. flattenStyle (Suc n) sort_styles r c opt (Fragment style (Some styleMeta)) (flat, meta) =
           Inr (flat, Some fm') \<and>
         fm' = fold_pseudoClasses styleMeta (case meta of None \<Rightarrow> new_flat_meta | Some m \<Rightarrow> m) \<and>
         flat_media fm' = flat_media (case meta of None \<Rightarrow> new_flat_meta | Some m \<Rightarrow> m) \<and>
         flat_containerQuery fm' =
           flat_containerQuery (case meta of None \<Rightarrow> new_flat_meta | Some m \<Rightarrow> m) \<and>
         flat_variables fm' = flat_variables (case meta of None \<Rightarrow> new_flat_meta | Some m \<Rightarrow> m) \<and>
         flat_animations fm' = flat_animations (case meta of None \<Rightarrow> new_flat_meta | Some m \<Rightarrow> m) \<and>
         flat_transition fm' = flat_transition (case meta of None \<Rightarrow> new_flat_meta | Some m \<Rightarrow> m) \<and>
         flat_container fm' = flat_container (case meta of None \<Rightarrow> new_flat_meta | Some m \<Rightarrow> m) \<and>
         flat_requiresLayout fm' =
           flat_requiresLayout (case meta of None \<Rightarrow> new_flat_meta | Some m \<Rightarrow> m) \<and>
         (case pseudoClasses styleMeta of
            None \<Rightarrow>
              flat_pseudoClasses fm' =
                flat_pseudoClasses (case meta of None \<Rightarrow> new_flat_meta | Some m \<Rightarrow> m)
          | Some pc \<Rightarrow>
              (case flat_pseudoClasses fm' of
                 None \<Rightarrow> False
               | Some pc' \<Rightarrow> fst ` set pc \<subseteq> fst ` set pc'))"
  using assms
  by (simp add: flatten_fragment_fails fold_pseudoClasses_def keys_spread split: option.splits)





lemma split_at_no_dot: "c \<notin> set key \<Longrightarrow> split_at c key = [key]"
  by (induction key) auto

text \<open>
  C8, as stated, fails twice.  A variable reference whose looked-up value is
  \<^verbatim>\<open>undefined\<close> resolves to an accessor, so the property is defined, and reading it gives
  \<^verbatim>\<open>undefined\<close>.  And \<^verbatim>\<open>fontScaleSelect\<close> without its argument raises a
  \<^verbatim>\<open>TypeError\<close>, since \<^verbatim>\<open>specifics[pixelRatio]\<close> reads a property of \<^verbatim>\<open>undefined\<close>.
\<close>

theorem C8_var_accessor_is_written_counterexample:
  "extractAndDefineProperty (Suc (Suc 0)) example_env ''color'' (Runtime ''var'' [Str ''--x'']) =
     Inr [(''color'', Leaf (Getter (VarGetter Undefined)))] \<and>
   call_getter (Suc (Suc 0)) example_env (VarGetter Undefined) = Inr Undefined \<and>
   flattenStyle (Suc (Suc 0)) (\<lambda>xs. xs) example_runtime example_context example_options
     (Fragment [(''fontSize'', Runtime ''fontScaleSelect'' [])] None) ([], None) = Inl TypeError"
  by (simp add: extractAndDefineProperty_def resolve_simps lookup_variable_def example_env_def
      example_context_def example_options_def example_runtime_def new_flat_meta_def
      createVariableProxy_def rootComponentContext_def defaultVariables_get_def cs_get_def
      createColorSchemeSignal_def read_resolved_def flatten_fragment_def flatten_property_def
      no_meta_def merge_meta_def scale_select_def get_member_def)

text \<open>
  C8, amended: a value that \<^verbatim>\<open>extractValue\<close> resolves to \<^verbatim>\<open>undefined\<close> defines no
  property, the flat style being returned as it was.  A scale selection with no match
  resolves to \<^verbatim>\<open>undefined\<close>, and so does an expression of an unsupported name and no
  arguments.  A variable reference always resolves to an accessor, so its property is
  defined whatever the variable holds.
\<close>

theorem C8_undefined_is_omitted:
  "(extractValue n E value = Inr (Value Undefined) \<longrightarrow>
      extractAndDefineProperty n E key value = Inr (flatStyle E) \<and>
      (key \<notin> {''transform'', ''textShadow'', ''shadowOffset''} \<longrightarrow>
         flatten_property n E key value = Inr (flatStyle E))) \<and>
   (scale_select (rt E) (font_scale (rt E)) (first_argument args) = Inr Undefined \<longrightarrow>
      extractValue (Suc n) E (Runtime ''fontScaleSelect'' args) = Inr (Value Undefined)) \<and>
   (scale_select (rt E) (pixel_ratio (rt E)) (first_argument args) = Inr Undefined \<longrightarrow>
      extractValue (Suc n) E (Runtime ''pixelScaleSelect'' args) = Inr (Value Undefined)) \<and>
   (name \<notin> special_names \<longrightarrow>
      extractValue (Suc n) E (Runtime name []) = Inr (Value Undefined)) \<and>
   (extractValue (Suc n) E (Runtime ''var'' args) = Inr r \<longrightarrow>
      is_getter r \<and>
      (CHR ''.'' \<notin> set key \<longrightarrow>
         extractAndDefineProperty (Suc n) E key (Runtime ''var'' args) =
           Inr (AList.update key (Leaf r) (flatStyle E))))"
proof (intro conjI impI)
  assume u: "extractValue n E value = Inr (Value Undefined)"
  then show a: "extractAndDefineProperty n E key value = Inr (flatStyle E)"
    by (simp add: extractAndDefineProperty_def and_then_def)
  assume "key \<notin> {''transform'', ''textShadow'', ''shadowOffset''}"
  with a show "flatten_property n E key value = Inr (flatStyle E)"
    by (simp add: flatten_property_def)
next
  assume "scale_select (rt E) (font_scale (rt E)) (first_argument args) = Inr Undefined"
  then show "extractValue (Suc n) E (Runtime ''fontScaleSelect'' args) = Inr (Value Undefined)"
    by (simp add: extractValue_Suc extractValue_body_def and_then_def Let_def)
next
  assume "scale_select (rt E) (pixel_ratio (rt E)) (first_argument args) = Inr Undefined"
  then show "extractValue (Suc n) E (Runtime ''pixelScaleSelect'' args) = Inr (Value Undefined)"
    by (simp add: extractValue_Suc extractValue_body_def and_then_def Let_def)
next
  assume "name \<notin> special_names"
  then show "extractValue (Suc n) E (Runtime name []) = Inr (Value Undefined)"
    by (simp add: special_names_def extractValue_Suc extractValue_body_def and_then_def Let_def
        createRuntimeFunction_def valueFn_def default_options_def array_join_def)
next
  assume v: "extractValue (Suc n) E (Runtime ''var'' args) = Inr r"
  then obtain variable where r: "r = Getter (VarGetter variable)"
    by (auto simp: extractValue_Suc extractValue_body_def and_then_def Let_def split: sum.splits)
  then show "is_getter r" by simp
  assume "CHR ''.'' \<notin> set key"
  with v r show "extractAndDefineProperty (Suc n) E key (Runtime ''var'' args) =
           Inr (AList.update key (Leaf r) (flatStyle E))"
    by (simp add: extractAndDefineProperty_def and_then_def split_at_no_dot)
qed

text \<open>A fragment that needs \<^verbatim>\<open>hover\<close> and a media query, on a component not hovered.\<close>

theorem C4_failed_condition_skips_fragment_witness:
  "\<not> passes example_runtime example_context
       (no_meta\<lparr> media := Some [1], pseudoClasses := Some [(''hover'', Bool True)],
                 variables := Some [(''--gap'', Num 8)] \<rparr>) \<and>
   (\<exists>fm'. flattenStyle (Suc 0) (\<lambda>xs. xs) example_runtime example_context example_options
             (Fragment [(''color'', Str ''red'')]
                (Some (no_meta\<lparr> media := Some [1], pseudoClasses := Some [(''hover'', Bool True)],
                                  variables := Some [(''--gap'', Num 8)] \<rparr>)))
             ([], None) = Inr ([], Some fm') \<and>
          flat_media fm' = None \<and>
          flat_variables fm' = None \<and>
          flat_pseudoClasses fm' = Some [(''hover'', Bool True)])"
proof -
  let ?sm = "no_meta\<lparr> media := Some [1], pseudoClasses := Some [(''hover'', Bool True)],
                 variables := Some [(''--gap'', Num 8)] \<rparr>"
  have f: "\<not> passes example_runtime example_context ?sm"
    by (simp add: passes_def example_runtime_def example_context_def no_meta_def
        interaction_get_def)
  from C4_failed_condition_skips_fragment [OF f, of 0 "\<lambda>xs. xs" example_options
      "[(''color'', Str ''red'')]" "[]" None] f
  show ?thesis
    by (auto simp: fold_pseudoClasses_def new_flat_meta_def no_meta_def spread_def)
qed


text \<open>
  \<^verbatim>\<open>calc()\<close>, \<^verbatim>\<open>fontScaleSelect({})\<close> and \<^verbatim>\<open>var(--x)\<close> with \<^verbatim>\<open>--x\<close> unset.
\<close>

theorem C8_undefined_is_omitted_witness:
  "extractValue (Suc 0) example_env (Runtime ''calc'' []) = Inr (Value Undefined) \<and>
   flatten_property (Suc 0) example_env ''width'' (Runtime ''calc'' []) = Inr [] \<and>
   scale_select (rt example_env) (font_scale (rt example_env)) (first_argument [Obj []]) =
     Inr Undefined \<and>
   extractValue (Suc 0) example_env (Runtime ''fontScaleSelect'' [Obj []]) = Inr (Value Undefined) \<and>
   extractValue (Suc (Suc 0)) example_env (Runtime ''var'' [Str ''--x'']) =
     Inr (Getter (VarGetter Undefined)) \<and>
   extractAndDefineProperty (Suc (Suc 0)) example_env ''color'' (Runtime ''var'' [Str ''--x'']) =
     Inr [(''color'', Leaf (Getter (VarGetter Undefined)))]"
proof -
  have n: "''calc'' \<notin> special_names" "''width'' \<notin> {''transform'', ''textShadow'', ''shadowOffset''}"
    "CHR ''.'' \<notin> set ''color''"
    by (simp_all add: special_names_def)
  have s: "scale_select (rt example_env) (font_scale (rt example_env)) (first_argument [Obj []]) =
     Inr Undefined"
    by (simp add: scale_select_def get_member_def first_argument_def and_then_def)
  have v: "extractValue (Suc (Suc 0)) example_env (Runtime ''var'' [Str ''--x'']) =
     Inr (Getter (VarGetter Undefined))"
    by (simp add: resolve_simps lookup_variable_def example_env_def example_context_def
        example_runtime_def new_flat_meta_def createVariableProxy_def rootComponentContext_def
        defaultVariables_get_def cs_get_def createColorSchemeSignal_def)
  have e: "flatStyle example_env = []"
    by (simp add: example_env_def)
  have c: "extractValue (Suc 0) example_env (Runtime ''calc'' []) = Inr (Value Undefined)"
    using C8_undefined_is_omitted [of 0 example_env Undefined "''width''" "[]" "''calc''"] n
    by simp
  from C8_undefined_is_omitted [of "Suc 0" example_env "Runtime ''calc'' []" "''width''"
      "[Obj []]" "''calc''" "Getter (VarGetter Undefined)"]
    C8_undefined_is_omitted [of "Suc 0" example_env "Runtime ''calc'' []" "''color''"
      "[Str ''--x'']" "''calc''" "Getter (VarGetter Undefined)"]
    C8_undefined_is_omitted [of 0 example_env "Runtime ''calc'' []" "''color''"
      "[Obj []]" "''calc''" "Getter (VarGetter Undefined)"]
    n s v c e
  show ?thesis by simp
qed



end
